theory Spec2Isabelle
  imports Main "HOL-Library.Finite_Map" "HOL-Library.Word"
begin

section \<open>The provider verifier of pact-go: \<^verbatim>\<open>provider/verifier.go\<close>\<close>

text \<open>
  The file \<^verbatim>\<open>provider/verifier.go\<close> holds three HTTP middlewares
  (\<^verbatim>\<open>beforeEachMiddleware\<close>, \<^verbatim>\<open>afterEachMiddleware\<close>,
  \<^verbatim>\<open>stateHandlerMiddleware\<close>), the port waiter \<^verbatim>\<open>WaitForPort\<close> and the
  orchestrator \<^verbatim>\<open>verifyProviderRaw\<close>. Each is embedded below as a HOL function.
  What the Go code leaves to other packages (\<^verbatim>\<open>encoding/json\<close>, \<^verbatim>\<open>net\<close>,
  \<^verbatim>\<open>net/url\<close>, the \<^verbatim>\<open>proxy\<close>, \<^verbatim>\<open>message\<close> and \<^verbatim>\<open>utils\<close> packages, the
  native verification handle) is a parameter of the embedding. Log lines that only print
  (\<^verbatim>\<open>log.Println\<close>, \<^verbatim>\<open>log.Printf\<close>) are left out; \<^verbatim>\<open>log.Panic\<close> and
  \<^verbatim>\<open>log.Fatal\<close> change the control flow and are modelled.
\<close>

subsection \<open>Errors\<close>

text \<open>
  A Go \<^verbatim>\<open>error\<close> value. \<open>Err\<close> is an error made by a collaborator or by user code;
  \<open>ServerStartTimeout d msg\<close> is the value of
  \<^verbatim>\<open>fmt.Errorf("expected server to start < %s. %s", timeoutDuration, message)\<close>
  in \<^verbatim>\<open>WaitForPort\<close>, kept with its two arguments.
\<close>

datatype error = Err string | ServerStartTimeout int string

subsection \<open>HTTP requests and the response writer\<close>

text \<open>The parts of \<^verbatim>\<open>*http.Request\<close> the middlewares read.\<close>

record Request =
  URL_Path :: string
  Method :: string
  RequestURI :: string
  Body :: string

text \<open>
  \<^verbatim>\<open>http.ResponseWriter\<close> as \<^verbatim>\<open>net/http\<close> documents it: the first
  \<^verbatim>\<open>WriteHeader\<close> commits the status line and the headers set so far, a later
  \<^verbatim>\<open>WriteHeader\<close> is superfluous and changes nothing, \<^verbatim>\<open>Write\<close> commits status
  200 first when nothing is committed yet, and a header added after the commit is not
  sent. Header keys are kept as the code writes them (\<^verbatim>\<open>net/http\<close> canonicalises their
  case on the wire).
\<close>

record ResponseWriter =
  wroteHeader :: bool
  status :: nat
  header :: "(string \<times> string) list"
  sentHeader :: "(string \<times> string) list"
  written :: string

definition newResponseWriter :: ResponseWriter where
  "newResponseWriter =
     \<lparr>wroteHeader = False, status = 0, header = [], sentHeader = [], written = []\<rparr>"

definition WriteHeader :: "nat \<Rightarrow> ResponseWriter \<Rightarrow> ResponseWriter" where
  "WriteHeader code w =
     (if wroteHeader w then w
      else w\<lparr>wroteHeader := True, status := code, sentHeader := header w\<rparr>)"

definition Header_Add :: "string \<Rightarrow> string \<Rightarrow> ResponseWriter \<Rightarrow> ResponseWriter" where
  "Header_Add k v w = w\<lparr>header := header w @ [(k, v)]\<rparr>"

definition Write :: "string \<Rightarrow> ResponseWriter \<Rightarrow> ResponseWriter" where
  "Write b w = (let w' = WriteHeader 200 w in w'\<lparr>written := written w' @ b\<rparr>)"

definition StatusOK :: nat where
  "StatusOK = 200"

definition StatusInternalServerError :: nat where
  "StatusInternalServerError = 500"

definition providerStatesSetupPath :: string where
  "providerStatesSetupPath = ''/__setup''"

subsection \<open>Provider states\<close>

text \<open>
  \<^verbatim>\<open>models.ProviderStateResponse\<close> is \<^verbatim>\<open>map[string]interface{}\<close>: a finite map from
  keys to values of any type \<open>'v\<close>, or the nil map (\<open>None\<close>). \<^verbatim>\<open>delete\<close> on the nil
  map does nothing.
\<close>

type_synonym 'v ProviderStateResponse = "(string, 'v) fmap option"

definition delete :: "'v ProviderStateResponse \<Rightarrow> string \<Rightarrow> 'v ProviderStateResponse" where
  "delete m k = map_option (fmdrop k) m"

record 'v ProviderState =
  Name :: string
  Parameters :: "'v ProviderStateResponse"

record 'v stateHandlerAction =
  Action :: string
  State :: string
  Params :: "'v ProviderStateResponse"

text \<open>
  The two uses of \<^verbatim>\<open>json.Unmarshal\<close> (into the struct \<^verbatim>\<open>stateHandlerAction\<close> and
  into the map) and \<^verbatim>\<open>json.Marshal\<close> are the library's: parameters here.
\<close>

record 'v json =
  Unmarshal_state :: "string \<Rightarrow> error + 'v stateHandlerAction"
  Unmarshal_params :: "string \<Rightarrow> error + 'v ProviderStateResponse"
  Marshal :: "'v ProviderStateResponse \<Rightarrow> error + string"

subsection \<open>Handlers, hooks and the record of calls\<close>

text \<open>
  What a handler does to the world is the response writer and the state \<open>'u\<close> that the
  caller's closures own (hooks, state handlers, the provider). Beside the new world a handler
  returns the list of the calls it made, in order; the call of the downstream handler holds
  the calls that handler made in turn, so everything after it in the list happened after
  the downstream handler returned.
\<close>

record 'u exchange =
  writer :: ResponseWriter
  store :: 'u

datatype 'v call =
    Hook_called
  | StateHandler_called bool string "'v ProviderStateResponse"
  | WriteHeader_called nat
  | Header_Add_called string string
  | Write_called string
  | next_ServeHTTP "'v call list"

type_synonym ('u, 'v) Handler = "Request \<Rightarrow> 'u exchange \<Rightarrow> 'v call list \<times> 'u exchange"

type_synonym ('u, 'v) Middleware = "('u, 'v) Handler \<Rightarrow> ('u, 'v) Handler"

type_synonym 'u Hook = "'u \<Rightarrow> error option \<times> 'u"

type_synonym ('u, 'v) StateHandler =
  "bool \<Rightarrow> 'v ProviderState \<Rightarrow> 'u \<Rightarrow> ('v ProviderStateResponse \<times> error option) \<times> 'u"

text \<open>The calls on \<^verbatim>\<open>w\<close>, each with its record.\<close>

definition w_WriteHeader :: "nat \<Rightarrow> 'u exchange \<Rightarrow> 'v call list \<times> 'u exchange" where
  "w_WriteHeader code x = ([WriteHeader_called code], x\<lparr>writer := WriteHeader code (writer x)\<rparr>)"

definition w_Header_Add :: "string \<Rightarrow> string \<Rightarrow> 'u exchange \<Rightarrow> 'v call list \<times> 'u exchange" where
  "w_Header_Add k v x = ([Header_Add_called k v], x\<lparr>writer := Header_Add k v (writer x)\<rparr>)"

definition w_Write :: "string \<Rightarrow> 'u exchange \<Rightarrow> 'v call list \<times> 'u exchange" where
  "w_Write b x = ([Write_called b], x\<lparr>writer := Write b (writer x)\<rparr>)"

definition ServeHTTP :: "('u, 'v) Handler \<Rightarrow> Request \<Rightarrow> 'u exchange \<Rightarrow> 'v call list \<times> 'u exchange" where
  "ServeHTTP next r x = (let (sub, x') = next r x in ([next_ServeHTTP sub], x'))"

text \<open>One step after another: the calls are concatenated.\<close>

definition andThen ::
  "('u exchange \<Rightarrow> 'v call list \<times> 'u exchange) \<Rightarrow> ('u exchange \<Rightarrow> 'v call list \<times> 'u exchange)
   \<Rightarrow> 'u exchange \<Rightarrow> 'v call list \<times> 'u exchange" where
  "andThen f g x = (let (cs, x') = f x; (ds, x'') = g x' in (cs @ ds, x''))"

definition noop :: "'u exchange \<Rightarrow> 'v call list \<times> 'u exchange" where
  "noop x = ([], x)"

text \<open>Calling a hook \<^verbatim>\<open>func() error\<close>: it may change the caller's state.\<close>

definition callHook :: "'u Hook \<Rightarrow> 'u exchange \<Rightarrow> error option \<times> 'u exchange" where
  "callHook h x = (let (err, u) = h (store x) in (err, x\<lparr>store := u\<rparr>))"

subsection \<open>\<^verbatim>\<open>beforeEachMiddleware\<close>\<close>

definition beforeEachMiddleware :: "'u Hook \<Rightarrow> ('u, 'v) Middleware" where
  "beforeEachMiddleware BeforeEach next r x =
     andThen
       (if URL_Path r = providerStatesSetupPath then
          (\<lambda>x. let (err, x') = callHook BeforeEach x in
                andThen (\<lambda>x. ([Hook_called], x))
                  (if err \<noteq> None then w_WriteHeader StatusInternalServerError else noop) x')
        else noop)
       (ServeHTTP next r) x"

subsection \<open>\<^verbatim>\<open>afterEachMiddleware\<close>\<close>

definition afterEachMiddleware :: "'u Hook \<Rightarrow> ('u, 'v) Middleware" where
  "afterEachMiddleware AfterEach next r x =
     andThen
       (ServeHTTP next r)
       (if URL_Path r \<noteq> providerStatesSetupPath then
          (\<lambda>x. let (err, x') = callHook AfterEach x in
                andThen (\<lambda>x. ([Hook_called], x))
                  (if err \<noteq> None then w_WriteHeader StatusInternalServerError else noop) x')
        else noop) x"

subsection \<open>\<^verbatim>\<open>stateHandlerMiddleware\<close>\<close>

text \<open>
  The state handler \<open>sf\<close> is called with \<^verbatim>\<open>state.Action == "setup"\<close> and
  \<^verbatim>\<open>models.ProviderState{Name: state.State, Parameters: state.Params}\<close>; the record
  of the call keeps the three arguments.
\<close>

definition callStateHandler ::
  "('u, 'v) StateHandler \<Rightarrow> 'v stateHandlerAction \<Rightarrow> 'u exchange
   \<Rightarrow> ('v ProviderStateResponse \<times> error option) \<times> 'v call list \<times> 'u exchange" where
  "callStateHandler sf state x =
     (let (res, u) = sf (Action state = ''setup'')
                        \<lparr>Name = State state, Parameters = Params state\<rparr> (store x)
      in (res, [StateHandler_called (Action state = ''setup'') (State state) (Params state)],
          x\<lparr>store := u\<rparr>))"

definition stateHandlerMiddleware ::
  "'v json \<Rightarrow> (string, ('u, 'v) StateHandler) fmap \<Rightarrow> ('u, 'v) Middleware" where
  "stateHandlerMiddleware js stateHandlers next r x =
     (if URL_Path r = providerStatesSetupPath then
        (case Unmarshal_state js (Body r) of
           Inl err \<Rightarrow> w_WriteHeader StatusInternalServerError x
         | Inr state0 \<Rightarrow>
            (case Unmarshal_params js (Body r) of
               Inl err \<Rightarrow> w_WriteHeader StatusInternalServerError x
             | Inr params0 \<Rightarrow>
                (let params = delete (delete params0 ''action'') ''state'';
                     state = state0\<lparr>Params := params\<rparr>
                 in case fmlookup stateHandlers (State state) of
                      None \<Rightarrow> w_WriteHeader StatusOK x
                    | Some sf \<Rightarrow>
                       (let ((res, err), cs, x') = callStateHandler sf state x in
                        if err \<noteq> None then
                          andThen (\<lambda>x. (cs, x)) (w_WriteHeader StatusInternalServerError) x'
                        else if res \<noteq> None then
                          (case Marshal js res of
                             Inl err \<Rightarrow>
                               andThen (\<lambda>x. (cs, x)) (w_WriteHeader StatusInternalServerError) x'
                           | Inr resBody \<Rightarrow>
                               andThen (\<lambda>x. (cs, x))
                                 (andThen (w_Header_Add ''content-type'' ''application/json'')
                                    (andThen (w_Write resBody) (w_WriteHeader StatusOK))) x')
                        else andThen (\<lambda>x. (cs, x)) (w_WriteHeader StatusOK) x'))))
      else ServeHTTP next r x)"

text \<open>
  What a recorded call delivered to a state handler: the setup flag, the state name and the
  parameters; \<open>None\<close> for every other call.
\<close>

fun delivered :: "'v call \<Rightarrow> (bool \<times> string \<times> 'v ProviderStateResponse) option" where
  "delivered (StateHandler_called b n p) = Some (b, n, p)"
| "delivered _ = None"

subsection \<open>\<^verbatim>\<open>fmt.Sprintf\<close> with \<^verbatim>\<open>%d\<close>\<close>

definition digit :: "nat \<Rightarrow> char" where
  "digit d = ''0123456789'' ! d"

function decimal :: "nat \<Rightarrow> string" where
  "decimal n = (if n < 10 then [digit n] else decimal (n div 10) @ [digit (n mod 10)])"
  by pat_completeness auto
termination
  by (relation "measure id") auto

declare decimal.simps [simp del]

definition Sprintf_d :: "int \<Rightarrow> string" where
  "Sprintf_d i = (if i < 0 then CHR ''-'' # decimal (nat (- i)) else decimal (nat i))"

subsection \<open>The verifier and its request\<close>

text \<open>
  \<^verbatim>\<open>Verifier\<close>: the timeout is a \<^verbatim>\<open>time.Duration\<close>, a number of nanoseconds. The
  native handle is only passed on to \<^verbatim>\<open>request.validate\<close> and
  \<^verbatim>\<open>request.Verify\<close>, which are parameters below.
\<close>

record Verifier =
  ClientTimeout :: int
  Hostname :: string

definition Millisecond :: int where
  "Millisecond = 1000000"

definition Second :: int where
  "Second = 1000 * Millisecond"

definition validateConfig :: "Verifier \<Rightarrow> error option \<times> Verifier" where
  "validateConfig v =
     (let v1 = (if ClientTimeout v = 0 then v\<lparr>ClientTimeout := 10 * Second\<rparr> else v);
          v2 = (if Hostname v1 = [] then v1\<lparr>Hostname := ''localhost''\<rparr> else v1)
      in (None, v2))"

record Transport =
  Path :: string
  Protocol :: string
  Port :: "16 word"

typedecl tls_Config

text \<open>
  \<^verbatim>\<open>VerifyRequest\<close> is declared in another file of the package; these are the fields
  \<^verbatim>\<open>verifyProviderRaw\<close> reads and writes, with the types it uses them at. A nil function or
  pointer is \<open>None\<close>; the two registries are Go maps, so finite maps, and \<open>len\<close> is the
  number of their keys.
\<close>

record ('u, 'v, 'mh) VerifyRequest =
  ProviderBaseURL :: string
  BeforeEach :: "'u Hook option"
  AfterEach :: "'u Hook option"
  StateHandlers :: "(string, ('u, 'v) StateHandler) fmap"
  MessageHandlers :: "(string, 'mh) fmap"
  RequestFilter :: "('u, 'v) Middleware option"
  CustomTLSConfig :: "tls_Config option"
  Transports :: "Transport list"
  ProviderStatesSetupURL :: string

definition len :: "('k, 'a) fmap \<Rightarrow> nat" where
  "len m = fcard (fmdom m)"

text \<open>
  \<^verbatim>\<open>proxy.Options\<close> as \<^verbatim>\<open>verifyProviderRaw\<close> fills it (its TLS field is
  \<open>Options_CustomTLSConfig\<close> here), and the parts of a parsed \<^verbatim>\<open>*url.URL\<close> it reads:
  \<^verbatim>\<open>u.Scheme\<close>, \<^verbatim>\<open>u.Hostname()\<close>, \<^verbatim>\<open>u.Port()\<close>, \<^verbatim>\<open>u.Path\<close>.
\<close>

record ('u, 'v) Options =
  TargetAddress :: string
  TargetScheme :: string
  TargetPath :: string
  Middleware :: "('u, 'v) Middleware list"
  InternalRequestPathPrefix :: string
  Options_CustomTLSConfig :: "tls_Config option"

record URL =
  u_Scheme :: string
  u_Hostname :: string
  u_Port :: string
  u_Path :: string

subsection \<open>Outcomes and effects of a verification run\<close>

text \<open>
  A call of \<^verbatim>\<open>verifyProviderRaw\<close> returns an error or nil to its caller, or panics
  (\<^verbatim>\<open>log.Panic\<close>, with the message prefix and the error it prints), or ends the process
  (\<^verbatim>\<open>log.Fatal\<close> calls \<^verbatim>\<open>os.Exit(1)\<close>).
\<close>

datatype outcome = Return "error option" | Panic string error | Exit nat

text \<open>
  What a run does to the outside, in order: the dummy server started on its own goroutine
  (with the address it listens on), the reverse proxy started with its options, each dial
  of the port waiter, and the call of the verification engine with the request it is given.
\<close>

datatype ('u, 'v, 'mh) effect =
    ListenAndServe string
  | HTTPReverseProxy_called "('u, 'v) Options"
  | Dial_called string string
  | Verify_called "('u, 'v, 'mh) VerifyRequest"

text \<open>
  The collaborators of \<^verbatim>\<open>verifyProviderRaw\<close>. \<open>net_Dial i\<close> is the result of the
  \<open>i\<close>-th dial of a run (\<open>None\<close>: connected). Real time is not modelled:
  \<open>polls_before d\<close> is the number of 50 ms timers that fire before a timer of duration
  \<open>d\<close> started first does.
\<close>

record ('u, 'v, 'mh) collaborators =
  utils_GetFreePort :: "error + int"
  request_validate :: "('u, 'v, 'mh) VerifyRequest \<Rightarrow> error option"
  url_Parse :: "string \<Rightarrow> error + URL"
  message_CreateMessageHandler :: "(string, 'mh) fmap \<Rightarrow> ('u, 'v) Middleware"
  proxy_HTTPReverseProxy :: "('u, 'v) Options \<Rightarrow> int \<times> error option"
  net_Dial :: "nat \<Rightarrow> string \<Rightarrow> string \<Rightarrow> error option"
  polls_before :: "int \<Rightarrow> nat"
  request_Verify :: "('u, 'v, 'mh) VerifyRequest \<Rightarrow> error option"
  encoding_json :: "'v json"

subsection \<open>\<^verbatim>\<open>startDefaultHTTPServer\<close> and \<^verbatim>\<open>WaitForPort\<close>\<close>

definition startDefaultHTTPServer :: "Verifier \<Rightarrow> int \<Rightarrow> ('u, 'v, 'mh) effect" where
  "startDefaultHTTPServer v port = ListenAndServe (Hostname v @ '':'' @ Sprintf_d port)"

text \<open>
  The loop of \<^verbatim>\<open>WaitForPort\<close>: \<open>n\<close> polls are left before the timeout fires, the next
  dial is the \<open>i\<close>-th. It ends with the timeout error or with nil at the first dial that
  connects.
\<close>

fun WaitForPort_loop ::
  "(nat \<Rightarrow> string \<Rightarrow> string \<Rightarrow> error option) \<Rightarrow> string \<Rightarrow> string \<Rightarrow> error \<Rightarrow> nat \<Rightarrow> nat
   \<Rightarrow> error option \<times> ('u, 'v, 'mh) effect list" where
  "WaitForPort_loop dial network addr timedOut i 0 = (Some timedOut, [])"
| "WaitForPort_loop dial network addr timedOut i (Suc n) =
     (case dial i network addr of
        None \<Rightarrow> (None, [Dial_called network addr])
      | Some err \<Rightarrow>
          (let (res, es) = WaitForPort_loop dial network addr timedOut (Suc i) n
           in (res, Dial_called network addr # es)))"

definition WaitForPort ::
  "('u, 'v, 'mh) collaborators \<Rightarrow> int \<Rightarrow> string \<Rightarrow> string \<Rightarrow> int \<Rightarrow> string
   \<Rightarrow> error option \<times> ('u, 'v, 'mh) effect list" where
  "WaitForPort env port network address timeoutDuration message =
     WaitForPort_loop (net_Dial env) network (address @ '':'' @ Sprintf_d port)
       (ServerStartTimeout timeoutDuration message) 0 (polls_before env timeoutDuration)"

subsection \<open>\<^verbatim>\<open>verifyProviderRaw\<close>\<close>

definition middlewares ::
  "('u, 'v, 'mh) collaborators \<Rightarrow> ('u, 'v, 'mh) VerifyRequest \<Rightarrow> ('u, 'v) Middleware list" where
  "middlewares env request =
     (case BeforeEach request of None \<Rightarrow> [] | Some h \<Rightarrow> [beforeEachMiddleware h]) @
     (case AfterEach request of None \<Rightarrow> [] | Some h \<Rightarrow> [afterEachMiddleware h]) @
     (if len (StateHandlers request) > 0
      then [stateHandlerMiddleware (encoding_json env) (StateHandlers request)] else []) @
     (if len (MessageHandlers request) > 0
      then [message_CreateMessageHandler env (MessageHandlers request)] else []) @
     (case RequestFilter request of None \<Rightarrow> [] | Some f \<Rightarrow> [f])"

text \<open>
  The steps of \<^verbatim>\<open>verifyProviderRaw\<close>, in the order of the source. First: with no provider
  URL a free port is allocated, the dummy server is started on its own goroutine and its URL
  becomes the request's provider URL; a port that cannot be allocated is the \<^verbatim>\<open>log.Panic\<close>.
\<close>

definition dummyProvider ::
  "('u, 'v, 'mh) collaborators \<Rightarrow> Verifier \<Rightarrow> ('u, 'v, 'mh) VerifyRequest
   \<Rightarrow> error + (('u, 'v, 'mh) effect list \<times> ('u, 'v, 'mh) VerifyRequest)" where
  "dummyProvider env v request =
     (if ProviderBaseURL request = []
      then (case utils_GetFreePort env of
              Inl err \<Rightarrow> Inl err
            | Inr port \<Rightarrow>
                Inr ([startDefaultHTTPServer v port],
                     request\<lparr>ProviderBaseURL := ''http://localhost:'' @ Sprintf_d port\<rparr>))
      else Inr ([], request))"

text \<open>The options of the reverse proxy, from the parsed provider URL.\<close>

definition proxyOptions ::
  "('u, 'v, 'mh) collaborators \<Rightarrow> ('u, 'v, 'mh) VerifyRequest \<Rightarrow> URL \<Rightarrow> ('u, 'v) Options" where
  "proxyOptions env request u =
     \<lparr>TargetAddress = u_Hostname u @ '':'' @ u_Port u,
      TargetScheme = u_Scheme u,
      TargetPath = u_Path u,
      Middleware = middlewares env request,
      InternalRequestPathPrefix = providerStatesSetupPath,
      Options_CustomTLSConfig = CustomTLSConfig request\<rparr>"

text \<open>
  After the proxy is started: the message transport (\<^verbatim>\<open>uint16(port)\<close> keeps the low 16
  bits of the port) and the default of the legacy provider-states URL.
\<close>

definition addMessageTransport ::
  "('u, 'v, 'mh) VerifyRequest \<Rightarrow> int \<Rightarrow> ('u, 'v, 'mh) VerifyRequest" where
  "addMessageTransport request port =
     (if len (MessageHandlers request) > 0
      then request\<lparr>Transports := Transports request @
             [\<lparr>Path = ''/__messages'', Protocol = ''message'', Port = word_of_int port\<rparr>]\<rparr>
      else request)"

definition defaultProviderStatesSetupURL ::
  "('u, 'v, 'mh) VerifyRequest \<Rightarrow> int \<Rightarrow> ('u, 'v, 'mh) VerifyRequest" where
  "defaultProviderStatesSetupURL request port =
     (if ProviderStatesSetupURL request = [] \<and> len (StateHandlers request) > 0
      then request\<lparr>ProviderStatesSetupURL :=
             ''http://localhost:'' @ Sprintf_d port @ providerStatesSetupPath\<rparr>
      else request)"

text \<open>The wait for the proxy's port, with the message of its timeout.\<close>

definition waitForProxy ::
  "('u, 'v, 'mh) collaborators \<Rightarrow> Verifier \<Rightarrow> int \<Rightarrow> error option \<times> ('u, 'v, 'mh) effect list" where
  "waitForProxy env v port =
     WaitForPort env port ''tcp'' ''localhost'' (ClientTimeout v)
       (''Timed out waiting for http verification proxy on port '' @
        Sprintf_d port @ '' - check for errors'')"

definition verifyProviderRaw ::
  "('u, 'v, 'mh) collaborators \<Rightarrow> Verifier \<Rightarrow> ('u, 'v, 'mh) VerifyRequest
   \<Rightarrow> outcome \<times> ('u, 'v, 'mh) effect list" where
  "verifyProviderRaw env v0 request0 =
     (let (err, v) = validateConfig v0 in
      if err \<noteq> None then (Return err, [])
      else
        (case dummyProvider env v request0 of
           Inl err \<Rightarrow> (Panic ''unable to allocate a port for verification:'' err, [])
         | Inr (es, request1) \<Rightarrow>
            (case request_validate env request1 of
               Some err \<Rightarrow> (Return (Some err), es)
             | None \<Rightarrow>
                (case url_Parse env (ProviderBaseURL request1) of
                   Inl err \<Rightarrow> (Panic ''unable to parse the provider URL'' err, es)
                 | Inr u \<Rightarrow>
                    (let opts = proxyOptions env request1 u;
                         (port, err) = proxy_HTTPReverseProxy env opts;
                         request2 = addMessageTransport request1 port;
                         request3 = defaultProviderStatesSetupURL request2 port;
                         (portErr, dials) = waitForProxy env v port
                     in if portErr \<noteq> None
                        then (Exit 1, es @ [HTTPReverseProxy_called opts] @ dials)
                        else (Return (request_Verify env request3),
                              es @ [HTTPReverseProxy_called opts] @ dials @
                              [Verify_called request3]))))))"

subsection \<open>A worked exchange\<close>

text \<open>
  The scenario of the specification: a state change for \<^verbatim>\<open>User foo exists\<close> with the
  parameter \<^verbatim>\<open>id\<close>, a handler registered for that state that returns the value
  \<^verbatim>\<open>userId\<close>, and a JSON library that decodes this body and encodes this result. Values
  are kept as their JSON text.
\<close>

definition example_body :: string where
  \<open>example_body = ''{"action":"setup","state":"User foo exists","id":"foo"}''\<close>

definition example_json :: "string json" where
  \<open>example_json =
     \<lparr>Unmarshal_state = (\<lambda>s. if s = example_body
          then Inr \<lparr>Action = ''setup'', State = ''User foo exists'', Params = None\<rparr>
          else Inl (Err ''invalid character'')),
      Unmarshal_params = (\<lambda>s. if s = example_body
          then Inr (Some (fmupd ''id'' ''"foo"'' (fmupd ''state'' ''"User foo exists"''
                      (fmupd ''action'' ''"setup"'' fmempty))))
          else Inl (Err ''invalid character'')),
      Marshal = (\<lambda>m. case m of None \<Rightarrow> Inr ''null''
          | Some f \<Rightarrow> (case fmlookup f ''userId'' of
               Some v \<Rightarrow> Inr (''{"userId":'' @ v @ ''}'')
             | None \<Rightarrow> Inl (Err ''unsupported type'')))\<rparr>\<close>

definition example_request :: Request where
  "example_request =
     \<lparr>URL_Path = ''/__setup'', Method = ''POST'', RequestURI = ''/__setup'', Body = example_body\<rparr>"

definition example_handlers :: "(string, (unit, string) StateHandler) fmap" where
  "example_handlers =
     fmupd ''User foo exists'' (\<lambda>setup st u. ((Some (fmupd ''userId'' ''42'' fmempty), None), u)) fmempty"

definition example_exchange :: "unit exchange" where
  "example_exchange = \<lparr>writer = newResponseWriter, store = ()\<rparr>"

definition example_next :: "(unit, string) Handler" where
  "example_next r = w_Write ''provider''"

definition failing_hook :: "unit Hook" where
  "failing_hook u = (Some (Err ''hook failed''), u)"

text \<open>
  Variations of the exchange. A handler for the same state that appends what it is given to
  the store, so that the store shows each application and its arguments. A registry that holds
  another state only. A body whose \<^verbatim>\<open>action\<close> is a number: it decodes as a JSON object, but
  \<^verbatim>\<open>json.Unmarshal\<close> into \<^verbatim>\<open>stateHandlerAction\<close> returns an error for it, the field being a
  string.
\<close>

definition recording_handlers ::
  "(string, ((bool \<times> string \<times> string ProviderStateResponse) list, string) StateHandler) fmap" where
  "recording_handlers =
     fmupd ''User foo exists''
       (\<lambda>setup st u. ((Some (fmupd ''userId'' ''42'' fmempty), None),
                       u @ [(setup, Name st, Parameters st)])) fmempty"

definition recording_exchange :: "(bool \<times> string \<times> string ProviderStateResponse) list exchange" where
  "recording_exchange = \<lparr>writer = newResponseWriter, store = []\<rparr>"

definition recording_next ::
  "((bool \<times> string \<times> string ProviderStateResponse) list, string) Handler" where
  "recording_next r = noop"

definition other_handlers :: "(string, (unit, string) StateHandler) fmap" where
  "other_handlers = fmupd ''User bar exists'' (\<lambda>setup st u. ((None, None), u)) fmempty"

definition typed_body :: string where
  \<open>typed_body = ''{"action":5,"state":"User foo exists","id":"foo"}''\<close>

definition strict_json :: "string json" where
  \<open>strict_json =
     \<lparr>Unmarshal_state = (\<lambda>s. if s = example_body
          then Inr \<lparr>Action = ''setup'', State = ''User foo exists'', Params = None\<rparr>
          else Inl (Err ''cannot unmarshal into Go struct field'')),
      Unmarshal_params = (\<lambda>s. if s = typed_body
          then Inr (Some (fmupd ''id'' ''"foo"'' (fmupd ''state'' ''"User foo exists"''
                      (fmupd ''action'' ''5'' fmempty))))
          else Unmarshal_params example_json s),
      Marshal = Marshal example_json\<rparr>\<close>

definition typed_request :: Request where
  "typed_request =
     \<lparr>URL_Path = ''/__setup'', Method = ''POST'', RequestURI = ''/__setup'', Body = typed_body\<rparr>"

text \<open>
  A run with that registry and one message handler: a provider at port 8080, a free port 8081
  for the dummy server, a proxy that listens on port 8082 and is reachable at the first
  dial, and 50 ms timers that fire \<open>d div 50 ms\<close> times before a timer of duration \<open>d\<close>.
  In \<open>unreachable_collaborators\<close> every dial fails.
\<close>

definition example_collaborators :: "(unit, string, unit) collaborators" where
  "example_collaborators =
     \<lparr>utils_GetFreePort = Inr 8081,
      request_validate = (\<lambda>request. None),
      url_Parse = (\<lambda>s. Inr \<lparr>u_Scheme = ''http'', u_Hostname = ''localhost'',
                              u_Port = drop 17 s, u_Path = []\<rparr>),
      message_CreateMessageHandler = (\<lambda>handlers next. next),
      proxy_HTTPReverseProxy = (\<lambda>opts. (8082, None)),
      net_Dial = (\<lambda>i network addr. None),
      polls_before = (\<lambda>d. nat (d div (50 * Millisecond))),
      request_Verify = (\<lambda>request. None),
      encoding_json = example_json\<rparr>"

definition unreachable_collaborators :: "(unit, string, unit) collaborators" where
  "unreachable_collaborators =
     example_collaborators\<lparr>net_Dial := (\<lambda>i network addr. Some (Err ''connection refused''))\<rparr>"

definition example_url :: URL where
  "example_url = \<lparr>u_Scheme = ''http'', u_Hostname = ''localhost'', u_Port = ''8080'', u_Path = []\<rparr>"

definition dummy_url :: URL where
  "dummy_url = \<lparr>u_Scheme = ''http'', u_Hostname = ''localhost'', u_Port = ''8081'', u_Path = []\<rparr>"

definition example_verifier :: Verifier where
  "example_verifier = \<lparr>ClientTimeout = 0, Hostname = []\<rparr>"

definition example_verify_request :: "(unit, string, unit) VerifyRequest" where
  "example_verify_request =
     \<lparr>ProviderBaseURL = ''http://localhost:8080'',
      BeforeEach = None,
      AfterEach = None,
      StateHandlers = example_handlers,
      MessageHandlers = fmupd ''a user'' () fmempty,
      RequestFilter = None,
      CustomTLSConfig = None,
      Transports = [],
      ProviderStatesSetupURL = []\<rparr>"

text \<open>
  The same request without a provider URL, and what it becomes once the dummy server has the
  port 8081.
\<close>

definition dummy_verify_request :: "(unit, string, unit) VerifyRequest" where
  "dummy_verify_request = example_verify_request\<lparr>ProviderBaseURL := []\<rparr>"

definition dummy_effective_request :: "(unit, string, unit) VerifyRequest" where
  "dummy_effective_request = example_verify_request\<lparr>ProviderBaseURL := ''http://localhost:8081''\<rparr>"

text \<open>
  The same request with a before-each hook that fails and with the registry that lacks the
  state, and the one with the registry of the exchange: in both the hook's middleware is
  installed before the state handlers'.
\<close>

definition hooked_verify_request :: "(unit, string, unit) VerifyRequest" where
  "hooked_verify_request =
     example_verify_request\<lparr>BeforeEach := Some failing_hook, StateHandlers := other_handlers,
                             MessageHandlers := fmempty\<rparr>"


section \<open>Properties of the middlewares\<close>

lemmas mw_defs = andThen_def noop_def ServeHTTP_def w_WriteHeader_def w_Header_Add_def w_Write_def
  callHook_def callStateHandler_def StatusOK_def StatusInternalServerError_def providerStatesSetupPath_def

lemmas ex_defs = example_body_def example_json_def example_request_def example_handlers_def
  example_exchange_def example_next_def failing_hook_def newResponseWriter_def
  WriteHeader_def Write_def Header_Add_def delete_def

lemma setup_state_undecodable:
  assumes "URL_Path r = ''/__setup''" and "Unmarshal_state js (Body r) = Inl e"
  shows "stateHandlerMiddleware js hs next r x = w_WriteHeader 500 x"
  using assms
  by (simp add: stateHandlerMiddleware_def providerStatesSetupPath_def
        StatusInternalServerError_def)

lemma setup_params_undecodable:
  assumes "URL_Path r = ''/__setup''" and "Unmarshal_params js (Body r) = Inl e"
  shows "stateHandlerMiddleware js hs next r x = w_WriteHeader 500 x"
  using assms
  by (cases "Unmarshal_state js (Body r)")
     (simp_all add: stateHandlerMiddleware_def providerStatesSetupPath_def
        StatusInternalServerError_def)

lemma setup_no_handler:
  assumes "URL_Path r = ''/__setup''"
    and "Unmarshal_state js (Body r) = Inr st"
    and "Unmarshal_params js (Body r) = Inr p"
    and "fmlookup hs (State st) = None"
  shows "stateHandlerMiddleware js hs next r x = w_WriteHeader 200 x"
  using assms
  by (simp add: stateHandlerMiddleware_def providerStatesSetupPath_def StatusOK_def Let_def)

lemma w_WriteHeader_fresh:
  "fst (w_WriteHeader code x) = [WriteHeader_called code]"
  "snd (w_WriteHeader code x) = x\<lparr>writer := WriteHeader code (writer x)\<rparr>"
  by (simp_all add: w_WriteHeader_def)

lemma WriteHeader_fresh:
  "\<not> wroteHeader w \<Longrightarrow> status (WriteHeader code w) = code"
  "\<not> wroteHeader w \<Longrightarrow> wroteHeader (WriteHeader code w)"
  "\<not> wroteHeader w \<Longrightarrow> sentHeader (WriteHeader code w) = header w"
  "written (WriteHeader code w) = written w"
  "header (WriteHeader code w) = header w"
  by (simp_all add: WriteHeader_def)

lemma setup_handler_error:
  assumes "URL_Path r = ''/__setup''"
    and "Unmarshal_state js (Body r) = Inr st"
    and "Unmarshal_params js (Body r) = Inr p0"
    and "fmlookup hs (State st) = Some sf"
    and "sf (Action st = ''setup'')
           \<lparr>Name = State st, Parameters = delete (delete p0 ''action'') ''state''\<rparr> (store x) =
         ((res, err), u)"
    and "err \<noteq> None \<or> (res \<noteq> None \<and> (\<exists>e. Marshal js res = Inl e))"
  shows "stateHandlerMiddleware js hs next r x =
           ([StateHandler_called (Action st = ''setup'') (State st)
               (delete (delete p0 ''action'') ''state''),
             WriteHeader_called 500],
            \<lparr>writer = WriteHeader 500 (writer x), store = u\<rparr>)"
  using assms
  by (cases x)
     (auto simp: stateHandlerMiddleware_def providerStatesSetupPath_def Let_def StatusOK_def
        StatusInternalServerError_def callStateHandler_def andThen_def w_WriteHeader_def)

lemma setup_handler_nil:
  assumes "URL_Path r = ''/__setup''"
    and "Unmarshal_state js (Body r) = Inr st"
    and "Unmarshal_params js (Body r) = Inr p0"
    and "fmlookup hs (State st) = Some sf"
    and "sf (Action st = ''setup'')
           \<lparr>Name = State st, Parameters = delete (delete p0 ''action'') ''state''\<rparr> (store x) =
         ((None, None), u)"
  shows "stateHandlerMiddleware js hs next r x =
           ([StateHandler_called (Action st = ''setup'') (State st)
               (delete (delete p0 ''action'') ''state''),
             WriteHeader_called 200],
            \<lparr>writer = WriteHeader 200 (writer x), store = u\<rparr>)"
  using assms
  by (cases x)
     (simp add: stateHandlerMiddleware_def providerStatesSetupPath_def Let_def StatusOK_def
        StatusInternalServerError_def callStateHandler_def andThen_def w_WriteHeader_def)

lemma setup_handler_result:
  assumes "URL_Path r = ''/__setup''"
    and "Unmarshal_state js (Body r) = Inr st"
    and "Unmarshal_params js (Body r) = Inr p0"
    and "fmlookup hs (State st) = Some sf"
    and "sf (Action st = ''setup'')
           \<lparr>Name = State st, Parameters = delete (delete p0 ''action'') ''state''\<rparr> (store x) =
         ((Some m, None), u)"
    and "Marshal js (Some m) = Inr b"
  shows "stateHandlerMiddleware js hs next r x =
           ([StateHandler_called (Action st = ''setup'') (State st)
               (delete (delete p0 ''action'') ''state''),
             Header_Add_called ''content-type'' ''application/json'',
             Write_called b,
             WriteHeader_called 200],
            \<lparr>writer = WriteHeader 200
                        (Write b (Header_Add ''content-type'' ''application/json'' (writer x))),
             store = u\<rparr>)"
  using assms
  by (cases x)
     (simp add: stateHandlerMiddleware_def providerStatesSetupPath_def Let_def StatusOK_def
        StatusInternalServerError_def callStateHandler_def andThen_def w_WriteHeader_def
        w_Header_Add_def w_Write_def)


lemma before_failing_hook:
  assumes "URL_Path r = ''/__setup''"
  shows "beforeEachMiddleware failing_hook inner r x =
           ([Hook_called, WriteHeader_called 500,
             next_ServeHTTP (fst (inner r \<lparr>writer = WriteHeader 500 (writer x), store = store x\<rparr>))],
            snd (inner r \<lparr>writer = WriteHeader 500 (writer x), store = store x\<rparr>))"
  using assms
  by (cases x)
     (simp add: beforeEachMiddleware_def mw_defs failing_hook_def case_prod_beta)

lemma WriteHeader_committed:
  "wroteHeader w \<Longrightarrow> WriteHeader code w = w"
  by (simp add: WriteHeader_def)

lemma delete_control_keys:
  "delete (delete (Some m) ''action'') ''state'' = Some (fmdrop_fset {|''action'', ''state''|} m)"
  by (simp add: delete_def) (rule fmap_ext, simp)

text \<open>
  C4: the before-each middleware calls the hook exactly when the path is \<^verbatim>\<open>/__setup\<close>. Its calls
  are an optional hook call, then \<^verbatim>\<open>WriteHeader(500)\<close> exactly when the hook was called and returned an
  error, then, on every path and as the last call, the downstream handler, on the exchange the
  steps before it left.
\<close>

theorem beforeEach_pass_through:
  fixes h :: "'u Hook" and "next" :: "('u, 'v) Handler"
  shows "\<exists>pre x1.
     beforeEachMiddleware h next r x =
       (pre @ [next_ServeHTTP (fst (next r x1))], snd (next r x1)) \<and>
     (Hook_called \<in> set pre \<longleftrightarrow> URL_Path r = ''/__setup'') \<and>
     (WriteHeader_called 500 \<in> set pre \<longleftrightarrow>
        URL_Path r = ''/__setup'' \<and> fst (h (store x)) \<noteq> None) \<and>
     (pre = [] \<or> pre = [Hook_called] \<or> pre = [Hook_called, WriteHeader_called 500]) \<and>
     writer x1 = (if URL_Path r = ''/__setup'' \<and> fst (h (store x)) \<noteq> None
                  then WriteHeader 500 (writer x) else writer x) \<and>
     store x1 = (if URL_Path r = ''/__setup'' then snd (h (store x)) else store x)"
proof -
  define hooked where "hooked = (URL_Path r = ''/__setup'')"
  define failed where "failed = (hooked \<and> fst (h (store x)) \<noteq> None)"
  define pre :: "'v call list" where
    "pre = (if hooked then [Hook_called] else []) @ (if failed then [WriteHeader_called 500] else [])"
  define x1 where
    "x1 = x\<lparr>writer := (if failed then WriteHeader 500 (writer x) else writer x),
             store := (if hooked then snd (h (store x)) else store x)\<rparr>"
  have "beforeEachMiddleware h next r x =
          (pre @ [next_ServeHTTP (fst (next r x1))], snd (next r x1))"
    by (cases x)
       (simp add: beforeEachMiddleware_def mw_defs Let_def pre_def x1_def hooked_def failed_def
          case_prod_beta)
  moreover have "Hook_called \<in> set pre \<longleftrightarrow> URL_Path r = ''/__setup''"
    by (simp add: pre_def hooked_def failed_def)
  moreover have "WriteHeader_called 500 \<in> set pre \<longleftrightarrow>
      URL_Path r = ''/__setup'' \<and> fst (h (store x)) \<noteq> None"
    by (simp add: pre_def hooked_def failed_def)
  moreover have "pre = [] \<or> pre = [Hook_called] \<or> pre = [Hook_called, WriteHeader_called 500]"
    by (simp add: pre_def hooked_def failed_def)
  moreover have "writer x1 = (if URL_Path r = ''/__setup'' \<and> fst (h (store x)) \<noteq> None
                  then WriteHeader 500 (writer x) else writer x)"
    by (simp add: x1_def hooked_def failed_def)
  moreover have "store x1 = (if URL_Path r = ''/__setup'' then snd (h (store x)) else store x)"
    by (simp add: x1_def hooked_def failed_def)
  ultimately show ?thesis by blast
qed

theorem beforeEach_pass_through_witness:
  "URL_Path example_request = ''/__setup'' \<and> fst (failing_hook (store example_exchange)) \<noteq> None \<and>
   fst (beforeEachMiddleware failing_hook example_next example_request example_exchange) =
     [Hook_called, WriteHeader_called 500, next_ServeHTTP [Write_called ''provider'']] \<and>
   status (writer (snd (beforeEachMiddleware failing_hook example_next example_request example_exchange))) = 500"
  using beforeEach_pass_through [of failing_hook example_next example_request example_exchange]
  by (simp add: beforeEachMiddleware_def mw_defs ex_defs)

text \<open>
  C5: the after-each middleware calls the downstream handler first, on the exchange as it
  received it. Everything else comes after that call has returned: the hook, called exactly when
  the path is not \<^verbatim>\<open>/__setup\<close> and on the store the downstream handler left, and
  \<^verbatim>\<open>WriteHeader(500)\<close> exactly when that hook returned an error. (On a response the
  downstream handler has committed, that \<^verbatim>\<open>WriteHeader\<close> changes nothing.)
\<close>

theorem afterEach_downstream_first:
  "\<exists>post.
     fst (afterEachMiddleware h next r x) = next_ServeHTTP (fst (next r x)) # post \<and>
     (\<forall>sub. next_ServeHTTP sub \<notin> set post) \<and>
     (Hook_called \<in> set post \<longleftrightarrow> URL_Path r \<noteq> ''/__setup'') \<and>
     (WriteHeader_called 500 \<in> set post \<longleftrightarrow>
        URL_Path r \<noteq> ''/__setup'' \<and> fst (h (store (snd (next r x)))) \<noteq> None) \<and>
     (post = [] \<or> post = [Hook_called] \<or> post = [Hook_called, WriteHeader_called 500]) \<and>
     writer (snd (afterEachMiddleware h next r x)) =
       (if URL_Path r \<noteq> ''/__setup'' \<and> fst (h (store (snd (next r x)))) \<noteq> None
        then WriteHeader 500 (writer (snd (next r x))) else writer (snd (next r x))) \<and>
     store (snd (afterEachMiddleware h next r x)) =
       (if URL_Path r \<noteq> ''/__setup'' then snd (h (store (snd (next r x))))
        else store (snd (next r x)))"
  by (cases "next r x"; cases "h (store (snd (next r x)))")
     (auto simp: afterEachMiddleware_def mw_defs Let_def split: prod.splits)

theorem afterEach_downstream_first_witness:
  "URL_Path (example_request\<lparr>URL_Path := ''/users''\<rparr>) \<noteq> ''/__setup'' \<and>
   fst (afterEachMiddleware failing_hook (\<lambda>r. noop) (example_request\<lparr>URL_Path := ''/users''\<rparr>) example_exchange) =
     [next_ServeHTTP [], Hook_called, WriteHeader_called 500] \<and>
   fst (afterEachMiddleware failing_hook (\<lambda>r. noop) example_request example_exchange) =
     [next_ServeHTTP []]"
  using afterEach_downstream_first [of failing_hook "\<lambda>r. noop" "example_request\<lparr>URL_Path := ''/users''\<rparr>" example_exchange]
  by (simp add: afterEachMiddleware_def mw_defs ex_defs)

text \<open>
  C10: on the path \<^verbatim>\<open>/__setup\<close> the state-handler middleware never calls the downstream
  handler, and what it does depends neither on the downstream handler nor on the HTTP method; on
  every other path it does nothing but call the downstream handler.
\<close>

theorem stateHandler_intercepts_setup:
  "(URL_Path r = ''/__setup'' \<longrightarrow>
      (\<forall>sub. next_ServeHTTP sub \<notin> set (fst (stateHandlerMiddleware js hs next r x))) \<and>
      stateHandlerMiddleware js hs next r x =
        stateHandlerMiddleware js hs next' (r\<lparr>Method := m\<rparr>) x) \<and>
   (URL_Path r \<noteq> ''/__setup'' \<longrightarrow>
      stateHandlerMiddleware js hs next r x = ([next_ServeHTTP (fst (next r x))], snd (next r x)))"
  by (auto simp: stateHandlerMiddleware_def mw_defs Let_def
           split: sum.splits option.splits prod.splits)

theorem stateHandler_intercepts_setup_witness:
  "URL_Path example_request = ''/__setup'' \<and>
   URL_Path (example_request\<lparr>URL_Path := ''/users''\<rparr>) \<noteq> ''/__setup'' \<and>
   stateHandlerMiddleware example_json example_handlers example_next example_request example_exchange =
     stateHandlerMiddleware example_json example_handlers (\<lambda>r. noop)
       (example_request\<lparr>Method := ''GET''\<rparr>) example_exchange \<and>
   fst (stateHandlerMiddleware example_json example_handlers example_next
          (example_request\<lparr>URL_Path := ''/users''\<rparr>) example_exchange) =
     [next_ServeHTTP [Write_called ''provider'']]"
  using stateHandler_intercepts_setup [of example_request example_json example_handlers example_next example_exchange
               "\<lambda>r. noop" "''GET''"]
        stateHandler_intercepts_setup [of "example_request\<lparr>URL_Path := ''/users''\<rparr>" example_json example_handlers
               example_next example_exchange]
  by (simp add: example_request_def example_next_def w_Write_def)

text \<open>
  C3: when either decoding of the body of a \<^verbatim>\<open>/__setup\<close> request fails, the only call of
  the state-handler middleware is \<^verbatim>\<open>WriteHeader(500)\<close>: no state handler and no downstream
  handler is called, and on a response not yet committed the status is 500 and no body is written.
\<close>

theorem stateHandler_decode_failure:
  assumes "URL_Path r = ''/__setup''"
    and "(\<exists>e. Unmarshal_state js (Body r) = Inl e) \<or> (\<exists>e. Unmarshal_params js (Body r) = Inl e)"
  shows "fst (stateHandlerMiddleware js hs next r x) = [WriteHeader_called 500] \<and>
         List.map_filter delivered (fst (stateHandlerMiddleware js hs next r x)) = [] \<and>
         (\<forall>sub. next_ServeHTTP sub \<notin> set (fst (stateHandlerMiddleware js hs next r x))) \<and>
         snd (stateHandlerMiddleware js hs next r x) = x\<lparr>writer := WriteHeader 500 (writer x)\<rparr> \<and>
         (\<not> wroteHeader (writer x) \<longrightarrow>
            status (writer (snd (stateHandlerMiddleware js hs next r x))) = 500 \<and>
            written (writer (snd (stateHandlerMiddleware js hs next r x))) = written (writer x))"
proof -
  have "stateHandlerMiddleware js hs next r x = w_WriteHeader 500 x"
    using assms setup_state_undecodable setup_params_undecodable by blast
  then show ?thesis
    by (simp add: w_WriteHeader_fresh WriteHeader_fresh List.map_filter_simps)
qed

theorem stateHandler_decode_failure_witness:
  "URL_Path (example_request\<lparr>Body := ''{''\<rparr>) = ''/__setup'' \<and>
   (\<exists>e. Unmarshal_state example_json (Body (example_request\<lparr>Body := ''{''\<rparr>)) = Inl e) \<and>
   \<not> wroteHeader (writer example_exchange) \<and>
   fst (stateHandlerMiddleware example_json example_handlers example_next
          (example_request\<lparr>Body := ''{''\<rparr>) example_exchange) = [WriteHeader_called 500] \<and>
   status (writer (snd (stateHandlerMiddleware example_json example_handlers example_next
          (example_request\<lparr>Body := ''{''\<rparr>) example_exchange))) = 500"
proof -
  let ?r = "example_request\<lparr>Body := ''{''\<rparr>"
  have p: "URL_Path ?r = ''/__setup''"
    by (simp add: example_request_def)
  have d: "(\<exists>e. Unmarshal_state example_json (Body ?r) = Inl e) \<or>
           (\<exists>e. Unmarshal_params example_json (Body ?r) = Inl e)"
    by (simp add: example_request_def example_json_def example_body_def)
  have f: "\<not> wroteHeader (writer example_exchange)"
    by (simp add: example_exchange_def newResponseWriter_def)
  have e: "\<exists>e. Unmarshal_state example_json (Body ?r) = Inl e"
    by (simp add: example_request_def example_json_def example_body_def)
  from stateHandler_decode_failure [OF p d, of example_handlers example_next example_exchange] f
  have c: "fst (stateHandlerMiddleware example_json example_handlers example_next ?r
                  example_exchange) = [WriteHeader_called 500]"
    and s: "status (writer (snd (stateHandlerMiddleware example_json example_handlers
                  example_next ?r example_exchange))) = 500"
    by blast+
  from p e f c s show ?thesis
    by blast
qed

text \<open>
  C2: when the decoded state name has no handler in the registry, the only call of the
  state-handler middleware is \<^verbatim>\<open>WriteHeader(200)\<close>: no state handler and no downstream
  handler is called and nothing is written to the body. The status of the response is 200 when
  no status was committed before the middleware ran; when one was, the response stays as it is.
\<close>

theorem stateHandler_unknown_state:
  assumes "URL_Path r = ''/__setup''"
    and "Unmarshal_state js (Body r) = Inr st"
    and "Unmarshal_params js (Body r) = Inr p"
    and "fmlookup hs (State st) = None"
  shows "fst (stateHandlerMiddleware js hs next r x) = [WriteHeader_called 200] \<and>
         List.map_filter delivered (fst (stateHandlerMiddleware js hs next r x)) = [] \<and>
         (\<forall>sub. next_ServeHTTP sub \<notin> set (fst (stateHandlerMiddleware js hs next r x))) \<and>
         snd (stateHandlerMiddleware js hs next r x) = x\<lparr>writer := WriteHeader 200 (writer x)\<rparr> \<and>
         (\<not> wroteHeader (writer x) \<longrightarrow>
            status (writer (snd (stateHandlerMiddleware js hs next r x))) = 200 \<and>
            written (writer (snd (stateHandlerMiddleware js hs next r x))) = written (writer x)) \<and>
         (wroteHeader (writer x) \<longrightarrow> snd (stateHandlerMiddleware js hs next r x) = x)"
proof -
  have "stateHandlerMiddleware js hs next r x = w_WriteHeader 200 x"
    using assms by (rule setup_no_handler)
  then show ?thesis
    by (simp add: w_WriteHeader_fresh WriteHeader_fresh WriteHeader_committed
          List.map_filter_simps)
qed

theorem stateHandler_unknown_state_witness:
  "URL_Path example_request = ''/__setup'' \<and>
   Unmarshal_state example_json (Body example_request) =
     Inr \<lparr>Action = ''setup'', State = ''User foo exists'', Params = None\<rparr> \<and>
   fmlookup other_handlers ''User foo exists'' = None \<and>
   0 < len other_handlers \<and>
   \<not> wroteHeader (writer example_exchange) \<and>
   fst (stateHandlerMiddleware example_json other_handlers example_next example_request
          example_exchange) = [WriteHeader_called 200] \<and>
   writer (snd (stateHandlerMiddleware example_json other_handlers example_next example_request
                  example_exchange)) =
     \<lparr>wroteHeader = True, status = 200, header = [], sentHeader = [], written = []\<rparr>"
proof -
  let ?st = "\<lparr>Action = ''setup'', State = ''User foo exists'', Params = None\<rparr> :: string stateHandlerAction"
  have p: "URL_Path example_request = ''/__setup''"
    by (simp add: example_request_def)
  have s: "Unmarshal_state example_json (Body example_request) = Inr ?st"
    by (simp add: example_request_def example_json_def)
  obtain p0 where q: "Unmarshal_params example_json (Body example_request) = Inr p0"
    by (simp add: example_request_def example_json_def)
  have l: "fmlookup other_handlers (State ?st) = None"
    by (simp add: other_handlers_def)
  have l': "fmlookup other_handlers ''User foo exists'' = None"
    by (simp add: other_handlers_def)
  have n: "0 < len other_handlers"
    by (simp add: other_handlers_def len_def fcard_finsert_disjoint)
  have f: "\<not> wroteHeader (writer example_exchange)"
    by (simp add: example_exchange_def newResponseWriter_def)
  note t = stateHandler_unknown_state [OF p s q l, of example_next example_exchange]
  have c: "fst (stateHandlerMiddleware example_json other_handlers example_next example_request
                  example_exchange) = [WriteHeader_called 200]"
    by (rule t [THEN conjunct1])
  have w: "snd (stateHandlerMiddleware example_json other_handlers example_next example_request
                  example_exchange) = example_exchange\<lparr>writer := WriteHeader 200 (writer example_exchange)\<rparr>"
    by (rule t [THEN conjunct2, THEN conjunct2, THEN conjunct2, THEN conjunct1])
  have w': "writer (example_exchange\<lparr>writer := WriteHeader 200 (writer example_exchange)\<rparr>) =
     \<lparr>wroteHeader = True, status = 200, header = [], sentHeader = [], written = []\<rparr>"
    by (simp add: example_exchange_def newResponseWriter_def WriteHeader_def)
  from p s l' n f c w w' show ?thesis
    by simp
qed

text \<open>
  Without the condition on the response the statement fails. In a run with a before-each hook
  and this registry, \<^verbatim>\<open>verifyProviderRaw\<close> installs the hook's middleware before the state
  handlers' one. When the hook fails on the \<^verbatim>\<open>/__setup\<close> request, its middleware commits status
  500 and passes the request on; the state-handler middleware then finds no handler, and its
  \<^verbatim>\<open>WriteHeader(200)\<close> changes nothing: the response is 500.
\<close>

theorem stateHandler_unknown_state_counterexample:
  "middlewares example_collaborators hooked_verify_request =
     [beforeEachMiddleware failing_hook, stateHandlerMiddleware example_json other_handlers] \<and>
   URL_Path example_request = ''/__setup'' \<and>
   Unmarshal_state example_json (Body example_request) =
     Inr \<lparr>Action = ''setup'', State = ''User foo exists'', Params = None\<rparr> \<and>
   fmlookup other_handlers ''User foo exists'' = None \<and>
   fst (beforeEachMiddleware failing_hook
          (stateHandlerMiddleware example_json other_handlers example_next)
          example_request example_exchange) =
     [Hook_called, WriteHeader_called 500, next_ServeHTTP [WriteHeader_called 200]] \<and>
   status (writer (snd (beforeEachMiddleware failing_hook
          (stateHandlerMiddleware example_json other_handlers example_next)
          example_request example_exchange))) = 500"
proof -
  let ?st = "\<lparr>Action = ''setup'', State = ''User foo exists'', Params = None\<rparr> :: string stateHandlerAction"
  have m: "middlewares example_collaborators hooked_verify_request =
     [beforeEachMiddleware failing_hook, stateHandlerMiddleware example_json other_handlers]"
    by (simp add: middlewares_def hooked_verify_request_def example_verify_request_def
          example_collaborators_def other_handlers_def len_def fcard_finsert_disjoint)
  have p: "URL_Path example_request = ''/__setup''"
    by (simp add: example_request_def)
  have s: "Unmarshal_state example_json (Body example_request) = Inr ?st"
    by (simp add: example_request_def example_json_def)
  obtain p0 where q: "Unmarshal_params example_json (Body example_request) = Inr p0"
    by (simp add: example_request_def example_json_def)
  have l: "fmlookup other_handlers (State ?st) = None"
    by (simp add: other_handlers_def)
  have l': "fmlookup other_handlers ''User foo exists'' = None"
    by (simp add: other_handlers_def)
  have i: "stateHandlerMiddleware example_json other_handlers example_next example_request x =
             w_WriteHeader 200 x" for x
    by (rule setup_no_handler [OF p s q l])
  have c: "fst (beforeEachMiddleware failing_hook
          (stateHandlerMiddleware example_json other_handlers example_next)
          example_request example_exchange) =
     [Hook_called, WriteHeader_called 500, next_ServeHTTP [WriteHeader_called 200]]"
    by (simp add: before_failing_hook [OF p] i w_WriteHeader_def)
  have t: "status (writer (snd (beforeEachMiddleware failing_hook
          (stateHandlerMiddleware example_json other_handlers example_next)
          example_request example_exchange))) = 500"
    by (simp add: before_failing_hook [OF p] i w_WriteHeader_def WriteHeader_def
          example_exchange_def newResponseWriter_def)
  from m p s l' c t show ?thesis
    by simp
qed




text \<open>
  C1: when the body of a \<^verbatim>\<open>/__setup\<close> request decodes both as the instruction and as a
  top-level mapping \<open>m\<close>, and the state has a registered handler, that handler is applied exactly
  once, to \<^verbatim>\<open>action == "setup"\<close> and to the state with the parameters \<open>m\<close> without the keys
  \<^verbatim>\<open>action\<close> and \<^verbatim>\<open>state\<close>: the store the middleware leaves is the one that application
  returns, and it is the only call of a state handler. Neither key is in those parameters and
  every other key has the value it has in \<open>m\<close>.
\<close>

theorem stateHandler_params_delivered:
  assumes "URL_Path r = ''/__setup''"
    and "Unmarshal_state js (Body r) = Inr st"
    and "Unmarshal_params js (Body r) = Inr (Some m)"
    and "fmlookup hs (State st) = Some sf"
  shows "store (snd (stateHandlerMiddleware js hs next r x)) =
           snd (sf (Action st = ''setup'')
                  \<lparr>Name = State st,
                    Parameters = Some (fmdrop_fset {|''action'', ''state''|} m)\<rparr> (store x)) \<and>
         List.map_filter delivered (fst (stateHandlerMiddleware js hs next r x)) =
           [(Action st = ''setup'', State st, Some (fmdrop_fset {|''action'', ''state''|} m))] \<and>
         ''action'' |\<notin>| fmdom (fmdrop_fset {|''action'', ''state''|} m) \<and>
         ''state'' |\<notin>| fmdom (fmdrop_fset {|''action'', ''state''|} m) \<and>
         (\<forall>k. k \<noteq> ''action'' \<longrightarrow> k \<noteq> ''state'' \<longrightarrow>
              fmlookup (fmdrop_fset {|''action'', ''state''|} m) k = fmlookup m k)"
proof -
  let ?p = "delete (delete (Some m) ''action'') ''state''"
  obtain res err u where sf:
    "sf (Action st = ''setup'') \<lparr>Name = State st, Parameters = ?p\<rparr> (store x) = ((res, err), u)"
    by (metis surj_pair)
  have u: "snd (sf (Action st = ''setup'') \<lparr>Name = State st, Parameters = ?p\<rparr> (store x)) = u"
    by (simp add: sf)
  have "store (snd (stateHandlerMiddleware js hs next r x)) = u \<and>
        List.map_filter delivered (fst (stateHandlerMiddleware js hs next r x)) =
          [(Action st = ''setup'', State st, ?p)]"
  proof (cases "err \<noteq> None \<or> (res \<noteq> None \<and> (\<exists>e. Marshal js res = Inl e))")
    case True
    from setup_handler_error [OF assms sf True, of "next"] show ?thesis
      by (simp add: List.map_filter_simps)
  next
    case False
    then have err: "err = None" by simp
    show ?thesis
    proof (cases res)
      case None
      from setup_handler_nil [OF assms sf [unfolded None err], of "next"] show ?thesis
        by (simp add: List.map_filter_simps)
    next
      case (Some m')
      with False obtain b where b: "Marshal js (Some m') = Inr b"
        by (cases "Marshal js (Some m')") auto
      from setup_handler_result [OF assms sf [unfolded Some err] b, of "next"] show ?thesis
        by (simp add: List.map_filter_simps)
    qed
  qed
  with u have "store (snd (stateHandlerMiddleware js hs next r x)) =
        snd (sf (Action st = ''setup'') \<lparr>Name = State st, Parameters = ?p\<rparr> (store x)) \<and>
        List.map_filter delivered (fst (stateHandlerMiddleware js hs next r x)) =
          [(Action st = ''setup'', State st, ?p)]"
    by simp
  then show ?thesis
    by (simp add: delete_control_keys)
qed

theorem stateHandler_params_delivered_witness:
  \<open>URL_Path example_request = ''/__setup'' \<and>
   fmlookup recording_handlers ''User foo exists'' \<noteq> None \<and>
   store (snd (stateHandlerMiddleware example_json recording_handlers recording_next
                 example_request recording_exchange)) =
     [(True, ''User foo exists'', Some (fmupd ''id'' ''"foo"'' fmempty))] \<and>
   List.map_filter delivered
     (fst (stateHandlerMiddleware example_json recording_handlers recording_next example_request
             recording_exchange)) =
     [(True, ''User foo exists'', Some (fmupd ''id'' ''"foo"'' fmempty))]\<close>
proof -
  let ?st = "\<lparr>Action = ''setup'', State = ''User foo exists'', Params = None\<rparr> :: string stateHandlerAction"
  let ?sf = "(\<lambda>setup st u. ((Some (fmupd ''userId'' ''42'' fmempty), None),
                              u @ [(setup, Name st, Parameters st)]))
             :: ((bool \<times> string \<times> string ProviderStateResponse) list, string) StateHandler"
  let ?m = \<open>fmupd ''id'' ''"foo"'' (fmupd ''state'' ''"User foo exists"''
              (fmupd ''action'' ''"setup"'' fmempty)) :: (string, string) fmap\<close>
  have p: "URL_Path example_request = ''/__setup''"
    by (simp add: example_request_def)
  have s: "Unmarshal_state example_json (Body example_request) = Inr ?st"
    by (simp add: example_request_def example_json_def)
  have q: "Unmarshal_params example_json (Body example_request) = Inr (Some ?m)"
    by (simp add: example_request_def example_json_def)
  have l: "fmlookup recording_handlers (State ?st) = Some ?sf"
    by (simp add: recording_handlers_def)
  have l': "fmlookup recording_handlers ''User foo exists'' \<noteq> None"
    by (simp add: recording_handlers_def)
  have d: \<open>fmdrop_fset {|''action'', ''state''|} ?m = fmupd ''id'' ''"foo"'' fmempty\<close>
    by (rule fmap_ext) simp
  have e: "store recording_exchange = []"
    by (simp add: recording_exchange_def)
  note t = stateHandler_params_delivered
    [OF p s q l, of recording_next recording_exchange, unfolded d e]
  note c1 = t [THEN conjunct1]
  note c2 = t [THEN conjunct2, THEN conjunct1]
  from p l' c1 c2 show ?thesis
    by simp
qed

text \<open>
  The statement does not hold for every body that is a JSON object. The body
  \<^verbatim>\<open>{"action":5,"state":"User foo exists","id":"foo"}\<close> is one, and a handler is registered
  for the state it names, but it does not decode as the instruction: the middleware answers 500
  and applies no handler, so no parameters are delivered and the store stays as it was.
\<close>

theorem stateHandler_params_delivered_counterexample:
  \<open>URL_Path typed_request = ''/__setup'' \<and>
   Unmarshal_params strict_json (Body typed_request) =
     Inr (Some (fmupd ''id'' ''"foo"'' (fmupd ''state'' ''"User foo exists"''
                  (fmupd ''action'' ''5'' fmempty)))) \<and>
   fmlookup recording_handlers ''User foo exists'' \<noteq> None \<and>
   List.map_filter delivered
     (fst (stateHandlerMiddleware strict_json recording_handlers recording_next typed_request
             recording_exchange)) = [] \<and>
   store (snd (stateHandlerMiddleware strict_json recording_handlers recording_next
                 typed_request recording_exchange)) = [] \<and>
   status (writer (snd (stateHandlerMiddleware strict_json recording_handlers recording_next
                 typed_request recording_exchange))) = 500\<close>
proof -
  have p: "URL_Path typed_request = ''/__setup''"
    by (simp add: typed_request_def)
  have q: \<open>Unmarshal_params strict_json (Body typed_request) =
     Inr (Some (fmupd ''id'' ''"foo"'' (fmupd ''state'' ''"User foo exists"''
                  (fmupd ''action'' ''5'' fmempty))))\<close>
    by (simp add: typed_request_def strict_json_def)
  have s: "Unmarshal_state strict_json (Body typed_request) =
             Inl (Err ''cannot unmarshal into Go struct field'')"
    by (simp add: typed_request_def strict_json_def typed_body_def example_body_def)
  have l: "fmlookup recording_handlers ''User foo exists'' \<noteq> None"
    by (simp add: recording_handlers_def)
  have i: "stateHandlerMiddleware strict_json recording_handlers recording_next typed_request x =
             w_WriteHeader 500 x" for x
    by (rule setup_state_undecodable [OF p s])
  have c: "List.map_filter delivered
     (fst (stateHandlerMiddleware strict_json recording_handlers recording_next typed_request
             recording_exchange)) = []"
    by (simp add: i w_WriteHeader_def List.map_filter_simps)
  have t: "store (snd (stateHandlerMiddleware strict_json recording_handlers recording_next
                 typed_request recording_exchange)) = []"
    by (simp add: i w_WriteHeader_def recording_exchange_def)
  have u: "status (writer (snd (stateHandlerMiddleware strict_json recording_handlers recording_next
                 typed_request recording_exchange))) = 500"
    by (simp add: i w_WriteHeader_def WriteHeader_def recording_exchange_def newResponseWriter_def)
  from p q l c t u show ?thesis
    by blast
qed

section \<open>Properties of a verification run\<close>

lemma validateConfig_ok: "fst (validateConfig v) = None"
  by (simp add: validateConfig_def Let_def)

lemma WaitForPort_loop_dials:
  "e \<in> set (snd (WaitForPort_loop dial network addr t i n)) \<Longrightarrow> e = Dial_called network addr"
  by (induction n arbitrary: i) (auto simp: case_prod_beta split: option.splits)

lemma WaitForPort_dials:
  "e \<in> set (snd (WaitForPort env port network address d msg)) \<Longrightarrow> \<exists>a b. e = Dial_called a b"
  unfolding WaitForPort_def by (blast dest: WaitForPort_loop_dials)

lemma WaitForPort_loop_unreachable:
  "(\<And>j. dial j network addr \<noteq> None) \<Longrightarrow>
   WaitForPort_loop dial network addr t i n = (Some t, replicate n (Dial_called network addr))"
  by (induction n arbitrary: i) (auto split: option.splits)

lemma WaitForPort_loop_connected:
  "0 < n \<Longrightarrow> dial i network addr = None \<Longrightarrow>
   WaitForPort_loop dial network addr t i n = (None, [Dial_called network addr])"
  by (cases n) auto

lemma run_no_port:
  assumes "dummyProvider env (snd (validateConfig v)) request = Inl e"
  shows "verifyProviderRaw env v request =
           (Panic ''unable to allocate a port for verification:'' e, [])"
  using assms validateConfig_ok [of v]
  by (simp add: verifyProviderRaw_def case_prod_beta)

lemma run_invalid:
  assumes "dummyProvider env (snd (validateConfig v)) request = Inr (es, request1)"
    and "request_validate env request1 = Some e"
  shows "verifyProviderRaw env v request = (Return (Some e), es)"
  using assms validateConfig_ok [of v]
  by (simp add: verifyProviderRaw_def case_prod_beta)

lemma run_unparsable:
  assumes "dummyProvider env (snd (validateConfig v)) request = Inr (es, request1)"
    and "request_validate env request1 = None"
    and "url_Parse env (ProviderBaseURL request1) = Inl e"
  shows "verifyProviderRaw env v request = (Panic ''unable to parse the provider URL'' e, es)"
  using assms validateConfig_ok [of v]
  by (simp add: verifyProviderRaw_def case_prod_beta)

lemma run_timeout:
  assumes "dummyProvider env (snd (validateConfig v)) request = Inr (es, request1)"
    and "request_validate env request1 = None"
    and "url_Parse env (ProviderBaseURL request1) = Inr u"
    and "fst (waitForProxy env (snd (validateConfig v)) (fst (proxy_HTTPReverseProxy env (proxyOptions env request1 u)))) \<noteq> None"
  shows "verifyProviderRaw env v request =
           (Exit 1, es @ [HTTPReverseProxy_called (proxyOptions env request1 u)] @
              snd (waitForProxy env (snd (validateConfig v)) (fst (proxy_HTTPReverseProxy env (proxyOptions env request1 u)))))"
  using assms validateConfig_ok [of v]
  by (simp add: verifyProviderRaw_def case_prod_beta Let_def)

lemma run_verify:
  assumes "dummyProvider env (snd (validateConfig v)) request = Inr (es, request1)"
    and "request_validate env request1 = None"
    and "url_Parse env (ProviderBaseURL request1) = Inr u"
    and "fst (waitForProxy env (snd (validateConfig v)) (fst (proxy_HTTPReverseProxy env (proxyOptions env request1 u)))) = None"
  shows "verifyProviderRaw env v request =
           (let port = fst (proxy_HTTPReverseProxy env (proxyOptions env request1 u));
                request3 = defaultProviderStatesSetupURL (addMessageTransport request1 port) port
            in (Return (request_Verify env request3),
                es @ [HTTPReverseProxy_called (proxyOptions env request1 u)] @
                snd (waitForProxy env (snd (validateConfig v)) port) @ [Verify_called request3]))"
  using assms validateConfig_ok [of v]
  by (simp add: verifyProviderRaw_def case_prod_beta Let_def)

lemma dummyProvider_keeps:
  assumes "dummyProvider env v request = Inr (es, request1)"
  shows "MessageHandlers request1 = MessageHandlers request"
    and "Transports request1 = Transports request"
    and "e \<in> set es \<Longrightarrow> \<exists>a. e = ListenAndServe a"
  using assms
  by (auto simp: dummyProvider_def startDefaultHTTPServer_def split: if_splits sum.splits)

lemma Verify_called_inv:
  assumes "Verify_called rq \<in> set (snd (verifyProviderRaw env v request))"
  shows "\<exists>es request1 u.
           dummyProvider env (snd (validateConfig v)) request = Inr (es, request1) \<and>
           url_Parse env (ProviderBaseURL request1) = Inr u \<and>
           HTTPReverseProxy_called (proxyOptions env request1 u) \<in>
             set (snd (verifyProviderRaw env v request)) \<and>
           rq = defaultProviderStatesSetupURL
                  (addMessageTransport request1
                     (fst (proxy_HTTPReverseProxy env (proxyOptions env request1 u))))
                  (fst (proxy_HTTPReverseProxy env (proxyOptions env request1 u)))"
proof (cases "dummyProvider env (snd (validateConfig v)) request")
  case (Inl e)
  from assms show ?thesis
    by (simp add: run_no_port [OF Inl])
next
  case (Inr p)
  obtain es request1 where p: "p = (es, request1)"
    by (cases p)
  note d = Inr [unfolded p]
  have es: "Verify_called rq \<notin> set es"
    using dummyProvider_keeps(3) [OF d] by blast
  show ?thesis
  proof (cases "request_validate env request1")
    case (Some e)
    from assms es show ?thesis
      by (simp add: run_invalid [OF d Some])
  next
    case None
    show ?thesis
    proof (cases "url_Parse env (ProviderBaseURL request1)")
      case (Inl e)
      from assms es show ?thesis
        by (simp add: run_unparsable [OF d None Inl])
    next
      case (Inr u)
      let ?port = "fst (proxy_HTTPReverseProxy env (proxyOptions env request1 u))"
      have dials: "Verify_called rq \<notin> set (snd (waitForProxy env (snd (validateConfig v)) ?port))"
        unfolding waitForProxy_def using WaitForPort_dials by blast
      show ?thesis
      proof (cases "fst (waitForProxy env (snd (validateConfig v)) ?port)")
        case (Some e)
        then have ne: "fst (waitForProxy env (snd (validateConfig v)) ?port) \<noteq> None"
          by simp
        from assms es dials show ?thesis
          by (simp add: run_timeout [OF d None Inr ne])
      next
        case None': None
        from assms es dials have r: "rq = defaultProviderStatesSetupURL
                  (addMessageTransport request1 ?port) ?port"
          by (simp add: run_verify [OF d None Inr None'] Let_def)
        have c: "HTTPReverseProxy_called (proxyOptions env request1 u) \<in>
             set (snd (verifyProviderRaw env v request))"
          by (simp add: run_verify [OF d None Inr None'] Let_def)
        show ?thesis
          by (intro exI conjI) (rule d, rule Inr, rule c, rule r)
      qed
    qed
  qed
qed

lemma Transports_default [simp]:
  "Transports (defaultProviderStatesSetupURL request port) = Transports request"
  by (simp add: defaultProviderStatesSetupURL_def)

lemma run_effects:
  assumes d: "dummyProvider env (snd (validateConfig v)) request = Inr (es, request1)"
  shows "\<exists>rest. snd (verifyProviderRaw env v request) = es @ rest \<and>
           (\<forall>a. ListenAndServe a \<notin> set rest) \<and>
           (\<forall>opts. HTTPReverseProxy_called opts \<in> set rest \<longrightarrow>
              (\<exists>u. url_Parse env (ProviderBaseURL request1) = Inr u \<and>
                   opts = proxyOptions env request1 u)) \<and>
           (\<forall>rq. Verify_called rq \<in> set rest \<longrightarrow>
              ProviderBaseURL rq = ProviderBaseURL request1)"
proof (cases "request_validate env request1")
  case (Some e)
  show ?thesis
    by (rule exI [of _ "[]"]) (simp add: run_invalid [OF d Some])
next
  case None
  show ?thesis
  proof (cases "url_Parse env (ProviderBaseURL request1)")
    case (Inl e)
    show ?thesis
      by (rule exI [of _ "[]"]) (simp add: run_unparsable [OF d None Inl])
  next
    case (Inr u)
    let ?opts = "proxyOptions env request1 u"
    let ?port = "fst (proxy_HTTPReverseProxy env ?opts)"
    let ?ds = "snd (waitForProxy env (snd (validateConfig v)) ?port)"
    have ds: "\<And>e. e \<in> set ?ds \<Longrightarrow> \<exists>a b. e = Dial_called a b"
      unfolding waitForProxy_def by (rule WaitForPort_dials)
    have ds1: "\<And>a. ListenAndServe a \<notin> set ?ds"
      and ds2: "\<And>opts. HTTPReverseProxy_called opts \<notin> set ?ds"
      and ds3: "\<And>rq. Verify_called rq \<notin> set ?ds"
      using ds by blast+
    show ?thesis
    proof (cases "fst (waitForProxy env (snd (validateConfig v)) ?port)")
      case (Some e)
      then have ne: "fst (waitForProxy env (snd (validateConfig v)) ?port) \<noteq> None"
        by simp
      show ?thesis
        by (rule exI [of _ "HTTPReverseProxy_called ?opts # ?ds"])
           (simp add: run_timeout [OF d None Inr ne] ds1 ds2 ds3 Inr)
    next
      case None': None
      show ?thesis
        by (rule exI [of _ "HTTPReverseProxy_called ?opts # ?ds @
              [Verify_called (defaultProviderStatesSetupURL (addMessageTransport request1 ?port) ?port)]"])
           (simp add: run_verify [OF d None Inr None'] Let_def ds1 ds2 ds3 Inr
              defaultProviderStatesSetupURL_def addMessageTransport_def)
    qed
  qed
qed

lemma Hostname_validateConfig:
  "Hostname (snd (validateConfig v)) = (if Hostname v = [] then ''localhost'' else Hostname v)"
  by (simp add: validateConfig_def Let_def)

lemma Sprintf_d_examples:
  "Sprintf_d 8081 = ''8081''" "Sprintf_d 8082 = ''8082''"
  by (simp_all add: Sprintf_d_def decimal.simps digit_def)

lemma example_config:
  "snd (validateConfig example_verifier) = \<lparr>ClientTimeout = 10 * Second, Hostname = ''localhost''\<rparr>"
  by (simp add: validateConfig_def example_verifier_def Let_def Second_def Millisecond_def)

lemma example_polls:
  "polls_before example_collaborators (10 * Second) = 200"
  "polls_before unreachable_collaborators (10 * Second) = 200"
  by (simp_all add: example_collaborators_def unreachable_collaborators_def Second_def Millisecond_def)

lemma example_len: "0 < len (MessageHandlers example_verify_request)"
  by (simp add: example_verify_request_def len_def fcard_finsert_disjoint)

lemma example_steps:
  "dummyProvider example_collaborators (snd (validateConfig example_verifier)) example_verify_request =
     Inr ([], example_verify_request)"
  "request_validate example_collaborators example_verify_request = None"
  "url_Parse example_collaborators (ProviderBaseURL example_verify_request) = Inr example_url"
  "fst (proxy_HTTPReverseProxy example_collaborators opts) = 8082"
  by (simp_all add: dummyProvider_def example_verify_request_def example_collaborators_def
        example_url_def)

lemma example_wait:
  "waitForProxy example_collaborators (snd (validateConfig example_verifier)) 8082 =
     (None, [Dial_called ''tcp'' ''localhost:8082''])"
proof -
  have "WaitForPort_loop (net_Dial example_collaborators) ''tcp'' ''localhost:8082'' t 0 200 =
          (None, [Dial_called ''tcp'' ''localhost:8082''])" for t
    by (rule WaitForPort_loop_connected) (simp_all add: example_collaborators_def)
  then show ?thesis
    by (simp add: waitForProxy_def WaitForPort_def example_config example_polls
          Sprintf_d_examples)
qed

lemma unreachable_steps:
  "dummyProvider unreachable_collaborators (snd (validateConfig example_verifier))
     example_verify_request = Inr ([], example_verify_request)"
  "request_validate unreachable_collaborators example_verify_request = None"
  "url_Parse unreachable_collaborators (ProviderBaseURL example_verify_request) = Inr example_url"
  "fst (proxy_HTTPReverseProxy unreachable_collaborators opts) = 8082"
  by (simp_all add: dummyProvider_def example_verify_request_def example_collaborators_def
        unreachable_collaborators_def example_url_def)

lemma unreachable_wait:
  "waitForProxy unreachable_collaborators (snd (validateConfig example_verifier)) 8082 =
     (Some (ServerStartTimeout (10 * Second)
        ''Timed out waiting for http verification proxy on port 8082 - check for errors''),
      replicate 200 (Dial_called ''tcp'' ''localhost:8082''))"
proof -
  have "WaitForPort_loop (net_Dial unreachable_collaborators) ''tcp'' ''localhost:8082'' t 0 200 =
          (Some t, replicate 200 (Dial_called ''tcp'' ''localhost:8082''))" for t
    by (rule WaitForPort_loop_unreachable)
       (simp add: unreachable_collaborators_def example_collaborators_def)
  then show ?thesis
    by (simp add: waitForProxy_def WaitForPort_def example_config example_polls
          Sprintf_d_examples)
qed

lemma run_target_effects:
  "(ProviderBaseURL request \<noteq> [] \<longrightarrow>
      (\<forall>a. ListenAndServe a \<notin> set (snd (verifyProviderRaw env v request))) \<and>
      (\<forall>opts. HTTPReverseProxy_called opts \<in> set (snd (verifyProviderRaw env v request)) \<longrightarrow>
         (\<exists>u. url_Parse env (ProviderBaseURL request) = Inr u \<and>
              TargetAddress opts = u_Hostname u @ '':'' @ u_Port u \<and>
              TargetScheme opts = u_Scheme u \<and> TargetPath opts = u_Path u)) \<and>
      (\<forall>rq. Verify_called rq \<in> set (snd (verifyProviderRaw env v request)) \<longrightarrow>
         ProviderBaseURL rq = ProviderBaseURL request)) \<and>
   (ProviderBaseURL request = [] \<longrightarrow>
      (\<forall>port. utils_GetFreePort env = Inr port \<longrightarrow>
         (\<exists>rest. snd (verifyProviderRaw env v request) =
                   ListenAndServe ((if Hostname v = [] then ''localhost'' else Hostname v) @
                                   '':'' @ Sprintf_d port) # rest \<and>
                 (\<forall>a. ListenAndServe a \<notin> set rest)) \<and>
         (\<forall>opts. HTTPReverseProxy_called opts \<in> set (snd (verifyProviderRaw env v request)) \<longrightarrow>
            (\<exists>u. url_Parse env (''http://localhost:'' @ Sprintf_d port) = Inr u \<and>
                 TargetAddress opts = u_Hostname u @ '':'' @ u_Port u \<and>
                 TargetScheme opts = u_Scheme u \<and> TargetPath opts = u_Path u)) \<and>
         (\<forall>rq. Verify_called rq \<in> set (snd (verifyProviderRaw env v request)) \<longrightarrow>
            ProviderBaseURL rq = ''http://localhost:'' @ Sprintf_d port)) \<and>
      (\<forall>e. utils_GetFreePort env = Inl e \<longrightarrow>
         verifyProviderRaw env v request =
           (Panic ''unable to allocate a port for verification:'' e, [])))"
proof (intro conjI impI allI)
  assume given: "ProviderBaseURL request \<noteq> []"
  then have d: "dummyProvider env (snd (validateConfig v)) request = Inr ([], request)"
    by (simp add: dummyProvider_def)
  from run_effects [OF d] obtain rest where
    e: "snd (verifyProviderRaw env v request) = rest" and
    l: "\<forall>a. ListenAndServe a \<notin> set rest" and
    p: "\<forall>opts. HTTPReverseProxy_called opts \<in> set rest \<longrightarrow>
          (\<exists>u. url_Parse env (ProviderBaseURL request) = Inr u \<and> opts = proxyOptions env request u)" and
    r: "\<forall>rq. Verify_called rq \<in> set rest \<longrightarrow> ProviderBaseURL rq = ProviderBaseURL request"
    by auto
  show "\<And>a. ListenAndServe a \<notin> set (snd (verifyProviderRaw env v request))"
    using l by (simp add: e)
  show "\<And>opts. HTTPReverseProxy_called opts \<in> set (snd (verifyProviderRaw env v request)) \<Longrightarrow>
         (\<exists>u. url_Parse env (ProviderBaseURL request) = Inr u \<and>
              TargetAddress opts = u_Hostname u @ '':'' @ u_Port u \<and>
              TargetScheme opts = u_Scheme u \<and> TargetPath opts = u_Path u)"
    using p by (auto simp: e proxyOptions_def)
  show "\<And>rq. Verify_called rq \<in> set (snd (verifyProviderRaw env v request)) \<Longrightarrow>
         ProviderBaseURL rq = ProviderBaseURL request"
    using r by (simp add: e)
next
  fix port
  assume absent: "ProviderBaseURL request = []" and port: "utils_GetFreePort env = Inr port"
  let ?url = "''http://localhost:'' @ Sprintf_d port"
  let ?server = "ListenAndServe ((if Hostname v = [] then ''localhost'' else Hostname v) @
                                   '':'' @ Sprintf_d port) :: ('a, 'b, 'c) effect"
  have d: "dummyProvider env (snd (validateConfig v)) request =
             Inr ([?server], request\<lparr>ProviderBaseURL := ?url\<rparr>)"
    using absent port
    by (simp add: dummyProvider_def startDefaultHTTPServer_def Hostname_validateConfig)
  from run_effects [OF d] obtain rest where
    e: "snd (verifyProviderRaw env v request) = ?server # rest" and
    l: "\<forall>a. ListenAndServe a \<notin> set rest" and
    p: "\<forall>opts. HTTPReverseProxy_called opts \<in> set rest \<longrightarrow>
          (\<exists>u. url_Parse env ?url = Inr u \<and>
               opts = proxyOptions env (request\<lparr>ProviderBaseURL := ?url\<rparr>) u)" and
    r: "\<forall>rq. Verify_called rq \<in> set rest \<longrightarrow> ProviderBaseURL rq = ?url"
    by auto
  show "\<exists>rest. snd (verifyProviderRaw env v request) = ?server # rest \<and>
                 (\<forall>a. ListenAndServe a \<notin> set rest)"
    using e l by blast
  show "\<And>opts. HTTPReverseProxy_called opts \<in> set (snd (verifyProviderRaw env v request)) \<Longrightarrow>
            (\<exists>u. url_Parse env ?url = Inr u \<and>
                 TargetAddress opts = u_Hostname u @ '':'' @ u_Port u \<and>
                 TargetScheme opts = u_Scheme u \<and> TargetPath opts = u_Path u)"
    using p by (auto simp: e proxyOptions_def)
  show "\<And>rq. Verify_called rq \<in> set (snd (verifyProviderRaw env v request)) \<Longrightarrow>
            ProviderBaseURL rq = ?url"
    using r by (simp add: e)
next
  fix e
  assume absent: "ProviderBaseURL request = []" and port: "utils_GetFreePort env = Inl e"
  then have d: "dummyProvider env (snd (validateConfig v)) request = Inl e"
    by (simp add: dummyProvider_def)
  then show "verifyProviderRaw env v request =
           (Panic ''unable to allocate a port for verification:'' e, [])"
    by (rule run_no_port)
qed

lemma run_reaches:
  assumes "dummyProvider env (snd (validateConfig v)) request = Inr (es, request1)"
    and "request_validate env request1 = None"
    and "url_Parse env (ProviderBaseURL request1) = Inr u"
  shows "(let opts = proxyOptions env request1 u;
              port = fst (proxy_HTTPReverseProxy env opts);
              rq = defaultProviderStatesSetupURL (addMessageTransport request1 port) port
          in HTTPReverseProxy_called opts \<in> set (snd (verifyProviderRaw env v request)) \<and>
             (fst (waitForProxy env (snd (validateConfig v)) port) = None \<longrightarrow>
                Verify_called rq \<in> set (snd (verifyProviderRaw env v request)) \<and>
                ProviderBaseURL rq = ProviderBaseURL request1 \<and>
                fst (verifyProviderRaw env v request) = Return (request_Verify env rq)))"
proof (cases "fst (waitForProxy env (snd (validateConfig v))
                (fst (proxy_HTTPReverseProxy env (proxyOptions env request1 u))))")
  case None
  show ?thesis
    by (simp add: run_verify [OF assms None] Let_def None
          defaultProviderStatesSetupURL_def addMessageTransport_def)
next
  case (Some e)
  then have ne: "fst (waitForProxy env (snd (validateConfig v))
                (fst (proxy_HTTPReverseProxy env (proxyOptions env request1 u)))) \<noteq> None"
    by simp
  show ?thesis
    by (simp add: run_timeout [OF assms ne] Let_def Some)
qed

text \<open>
  C8: the request given to the verification engine has the transports of the request passed in,
  followed by exactly one more when at least one message handler is registered and by nothing
  when none is. The one added is \<^verbatim>\<open>/__messages\<close>, \<^verbatim>\<open>message\<close> and the low 16 bits of the port the
  reverse proxy returned, which is that port itself when it is a port number.
\<close>

theorem message_transport:
  assumes "Verify_called rq \<in> set (snd (verifyProviderRaw env v request))"
  shows "\<exists>opts. HTTPReverseProxy_called opts \<in> set (snd (verifyProviderRaw env v request)) \<and>
           (0 < len (MessageHandlers request) \<longrightarrow>
              Transports rq = Transports request @
                [\<lparr>Path = ''/__messages'', Protocol = ''message'',
                  Port = word_of_int (fst (proxy_HTTPReverseProxy env opts))\<rparr>]) \<and>
           (len (MessageHandlers request) = 0 \<longrightarrow> Transports rq = Transports request) \<and>
           (0 < len (MessageHandlers request) \<and> 0 \<le> fst (proxy_HTTPReverseProxy env opts) \<and>
            fst (proxy_HTTPReverseProxy env opts) < 65536 \<longrightarrow>
              uint (Port (last (Transports rq))) = fst (proxy_HTTPReverseProxy env opts))"
proof -
  from Verify_called_inv [OF assms] obtain es request1 u where
    d: "dummyProvider env (snd (validateConfig v)) request = Inr (es, request1)" and
    c: "HTTPReverseProxy_called (proxyOptions env request1 u) \<in>
          set (snd (verifyProviderRaw env v request))" and
    rq: "rq = defaultProviderStatesSetupURL
                  (addMessageTransport request1
                     (fst (proxy_HTTPReverseProxy env (proxyOptions env request1 u))))
                  (fst (proxy_HTTPReverseProxy env (proxyOptions env request1 u)))"
    by blast
  have "0 < len (MessageHandlers request) \<longrightarrow>
              Transports rq = Transports request @
                [\<lparr>Path = ''/__messages'', Protocol = ''message'',
                  Port = word_of_int (fst (proxy_HTTPReverseProxy env (proxyOptions env request1 u)))\<rparr>]"
    by (simp add: rq addMessageTransport_def dummyProvider_keeps(1,2) [OF d])
  moreover have "len (MessageHandlers request) = 0 \<longrightarrow> Transports rq = Transports request"
    by (simp add: rq addMessageTransport_def dummyProvider_keeps(1,2) [OF d])
  moreover have "0 < len (MessageHandlers request) \<and>
      0 \<le> fst (proxy_HTTPReverseProxy env (proxyOptions env request1 u)) \<and>
      fst (proxy_HTTPReverseProxy env (proxyOptions env request1 u)) < 65536 \<longrightarrow>
      uint (Port (last (Transports rq))) =
        fst (proxy_HTTPReverseProxy env (proxyOptions env request1 u))"
    by (simp add: rq addMessageTransport_def dummyProvider_keeps(1,2) [OF d]
          uint_word_of_int take_bit_int_eq_self)
  ultimately show ?thesis
    using c by (intro exI [of _ "proxyOptions env request1 u"] conjI)
qed

theorem message_transport_witness:
  "Verify_called (defaultProviderStatesSetupURL (addMessageTransport example_verify_request 8082) 8082)
     \<in> set (snd (verifyProviderRaw example_collaborators example_verifier example_verify_request)) \<and>
   0 < len (MessageHandlers example_verify_request) \<and>
   Transports (defaultProviderStatesSetupURL (addMessageTransport example_verify_request 8082) 8082) =
     Transports example_verify_request @
       [\<lparr>Path = ''/__messages'', Protocol = ''message'', Port = 8082\<rparr>]"
proof -
  let ?rq = "defaultProviderStatesSetupURL (addMessageTransport example_verify_request 8082) 8082"
  have w: "fst (waitForProxy example_collaborators (snd (validateConfig example_verifier))
             (fst (proxy_HTTPReverseProxy example_collaborators
                (proxyOptions example_collaborators example_verify_request example_url)))) = None"
    by (simp add: example_steps(4) example_wait)
  have m: "Verify_called ?rq \<in>
             set (snd (verifyProviderRaw example_collaborators example_verifier example_verify_request))"
    by (simp add: run_verify [OF example_steps(1-3) w] Let_def example_steps(4))
  from message_transport [OF m] example_len
  have "Transports ?rq = Transports example_verify_request @
       [\<lparr>Path = ''/__messages'', Protocol = ''message'', Port = 8082\<rparr>]"
    by (auto simp: example_steps(4))
  with m example_len show ?thesis
    by simp
qed

text \<open>
  C9: with a provider URL in the request no dummy server is started; once the request is
  valid and the URL parses, the reverse proxy is started with the parsed form of that URL as its
  target, and once the proxy is reachable the engine is called with the request that holds that
  URL. With no provider URL and a free port allocated, the first effect is the dummy server on
  \<^verbatim>\<open>Hostname:port\<close>, no second one is started, and \<^verbatim>\<open>http://localhost:port\<close> takes the place of the
  provider URL: it is what is validated and parsed, what the proxy is started to target and what
  the engine is called with. With no provider URL and no port to allocate, the run panics before
  any effect. No proxy is started with another target and the engine is never given another URL.
\<close>

theorem provider_target:
  "((ProviderBaseURL request \<noteq> [] \<longrightarrow>
      (\<forall>a. ListenAndServe a \<notin> set (snd (verifyProviderRaw env v request))) \<and>
      (\<forall>opts. HTTPReverseProxy_called opts \<in> set (snd (verifyProviderRaw env v request)) \<longrightarrow>
         (\<exists>u. url_Parse env (ProviderBaseURL request) = Inr u \<and>
              TargetAddress opts = u_Hostname u @ '':'' @ u_Port u \<and>
              TargetScheme opts = u_Scheme u \<and> TargetPath opts = u_Path u)) \<and>
      (\<forall>rq. Verify_called rq \<in> set (snd (verifyProviderRaw env v request)) \<longrightarrow>
         ProviderBaseURL rq = ProviderBaseURL request)) \<and>
   (ProviderBaseURL request = [] \<longrightarrow>
      (\<forall>port. utils_GetFreePort env = Inr port \<longrightarrow>
         (\<exists>rest. snd (verifyProviderRaw env v request) =
                   ListenAndServe ((if Hostname v = [] then ''localhost'' else Hostname v) @
                                   '':'' @ Sprintf_d port) # rest \<and>
                 (\<forall>a. ListenAndServe a \<notin> set rest)) \<and>
         (\<forall>opts. HTTPReverseProxy_called opts \<in> set (snd (verifyProviderRaw env v request)) \<longrightarrow>
            (\<exists>u. url_Parse env (''http://localhost:'' @ Sprintf_d port) = Inr u \<and>
                 TargetAddress opts = u_Hostname u @ '':'' @ u_Port u \<and>
                 TargetScheme opts = u_Scheme u \<and> TargetPath opts = u_Path u)) \<and>
         (\<forall>rq. Verify_called rq \<in> set (snd (verifyProviderRaw env v request)) \<longrightarrow>
            ProviderBaseURL rq = ''http://localhost:'' @ Sprintf_d port)) \<and>
      (\<forall>e. utils_GetFreePort env = Inl e \<longrightarrow>
         verifyProviderRaw env v request =
           (Panic ''unable to allocate a port for verification:'' e, [])))) \<and>
   (ProviderBaseURL request \<noteq> [] \<longrightarrow>
      (\<forall>u. request_validate env request = None \<and>
           url_Parse env (ProviderBaseURL request) = Inr u \<longrightarrow>
         (let opts = proxyOptions env request u;
              port = fst (proxy_HTTPReverseProxy env opts);
              rq = defaultProviderStatesSetupURL (addMessageTransport request port) port
          in HTTPReverseProxy_called opts \<in> set (snd (verifyProviderRaw env v request)) \<and>
             (fst (waitForProxy env (snd (validateConfig v)) port) = None \<longrightarrow>
                Verify_called rq \<in> set (snd (verifyProviderRaw env v request)) \<and>
                ProviderBaseURL rq = ProviderBaseURL request \<and>
                fst (verifyProviderRaw env v request) = Return (request_Verify env rq))))) \<and>
   (ProviderBaseURL request = [] \<longrightarrow>
      (\<forall>port0 u. utils_GetFreePort env = Inr port0 \<and>
           request_validate env
             (request\<lparr>ProviderBaseURL := ''http://localhost:'' @ Sprintf_d port0\<rparr>) = None \<and>
           url_Parse env (''http://localhost:'' @ Sprintf_d port0) = Inr u \<longrightarrow>
         (let request1 = request\<lparr>ProviderBaseURL := ''http://localhost:'' @ Sprintf_d port0\<rparr>;
              opts = proxyOptions env request1 u;
              port = fst (proxy_HTTPReverseProxy env opts);
              rq = defaultProviderStatesSetupURL (addMessageTransport request1 port) port
          in HTTPReverseProxy_called opts \<in> set (snd (verifyProviderRaw env v request)) \<and>
             (fst (waitForProxy env (snd (validateConfig v)) port) = None \<longrightarrow>
                Verify_called rq \<in> set (snd (verifyProviderRaw env v request)) \<and>
                ProviderBaseURL rq = ''http://localhost:'' @ Sprintf_d port0 \<and>
                fst (verifyProviderRaw env v request) = Return (request_Verify env rq)))))"
proof (intro conjI)
  show "ProviderBaseURL request \<noteq> [] \<longrightarrow>
      (\<forall>u. request_validate env request = None \<and>
           url_Parse env (ProviderBaseURL request) = Inr u \<longrightarrow>
         (let opts = proxyOptions env request u;
              port = fst (proxy_HTTPReverseProxy env opts);
              rq = defaultProviderStatesSetupURL (addMessageTransport request port) port
          in HTTPReverseProxy_called opts \<in> set (snd (verifyProviderRaw env v request)) \<and>
             (fst (waitForProxy env (snd (validateConfig v)) port) = None \<longrightarrow>
                Verify_called rq \<in> set (snd (verifyProviderRaw env v request)) \<and>
                ProviderBaseURL rq = ProviderBaseURL request \<and>
                fst (verifyProviderRaw env v request) = Return (request_Verify env rq))))"
  proof (intro impI allI)
    fix u
    assume given: "ProviderBaseURL request \<noteq> []"
      and ok: "request_validate env request = None \<and>
               url_Parse env (ProviderBaseURL request) = Inr u"
    from given have d: "dummyProvider env (snd (validateConfig v)) request = Inr ([], request)"
      by (simp add: dummyProvider_def)
    from ok have 1: "request_validate env request = None"
      and 2: "url_Parse env (ProviderBaseURL request) = Inr u"
      by simp_all
    show "let opts = proxyOptions env request u;
              port = fst (proxy_HTTPReverseProxy env opts);
              rq = defaultProviderStatesSetupURL (addMessageTransport request port) port
          in HTTPReverseProxy_called opts \<in> set (snd (verifyProviderRaw env v request)) \<and>
             (fst (waitForProxy env (snd (validateConfig v)) port) = None \<longrightarrow>
                Verify_called rq \<in> set (snd (verifyProviderRaw env v request)) \<and>
                ProviderBaseURL rq = ProviderBaseURL request \<and>
                fst (verifyProviderRaw env v request) = Return (request_Verify env rq))"
      by (rule run_reaches [OF d 1 2])
  qed
  show "ProviderBaseURL request = [] \<longrightarrow>
      (\<forall>port0 u. utils_GetFreePort env = Inr port0 \<and>
           request_validate env
             (request\<lparr>ProviderBaseURL := ''http://localhost:'' @ Sprintf_d port0\<rparr>) = None \<and>
           url_Parse env (''http://localhost:'' @ Sprintf_d port0) = Inr u \<longrightarrow>
         (let request1 = request\<lparr>ProviderBaseURL := ''http://localhost:'' @ Sprintf_d port0\<rparr>;
              opts = proxyOptions env request1 u;
              port = fst (proxy_HTTPReverseProxy env opts);
              rq = defaultProviderStatesSetupURL (addMessageTransport request1 port) port
          in HTTPReverseProxy_called opts \<in> set (snd (verifyProviderRaw env v request)) \<and>
             (fst (waitForProxy env (snd (validateConfig v)) port) = None \<longrightarrow>
                Verify_called rq \<in> set (snd (verifyProviderRaw env v request)) \<and>
                ProviderBaseURL rq = ''http://localhost:'' @ Sprintf_d port0 \<and>
                fst (verifyProviderRaw env v request) = Return (request_Verify env rq))))"
  proof (intro impI allI)
    fix port0 u
    let ?url = "''http://localhost:'' @ Sprintf_d port0"
    let ?request1 = "request\<lparr>ProviderBaseURL := ?url\<rparr>"
    assume absent: "ProviderBaseURL request = []"
      and ok: "utils_GetFreePort env = Inr port0 \<and> request_validate env ?request1 = None \<and>
               url_Parse env ?url = Inr u"
    from absent ok have d: "dummyProvider env (snd (validateConfig v)) request =
        Inr ([startDefaultHTTPServer (snd (validateConfig v)) port0], ?request1)"
      by (simp add: dummyProvider_def)
    from ok have 1: "request_validate env ?request1 = None"
      and 2: "url_Parse env (ProviderBaseURL ?request1) = Inr u"
      by simp_all
    from run_reaches [OF d 1 2]
    show "let request1 = ?request1;
              opts = proxyOptions env request1 u;
              port = fst (proxy_HTTPReverseProxy env opts);
              rq = defaultProviderStatesSetupURL (addMessageTransport request1 port) port
          in HTTPReverseProxy_called opts \<in> set (snd (verifyProviderRaw env v request)) \<and>
             (fst (waitForProxy env (snd (validateConfig v)) port) = None \<longrightarrow>
                Verify_called rq \<in> set (snd (verifyProviderRaw env v request)) \<and>
                ProviderBaseURL rq = ?url \<and>
                fst (verifyProviderRaw env v request) = Return (request_Verify env rq))"
      by (simp add: Let_def)
  qed
qed (rule run_target_effects [THEN conjunct1] run_target_effects [THEN conjunct2])+

theorem provider_target_witness:
  "ProviderBaseURL example_verify_request \<noteq> [] \<and>
   ListenAndServe ''localhost:8081'' \<notin>
     set (snd (verifyProviderRaw example_collaborators example_verifier example_verify_request)) \<and>
   HTTPReverseProxy_called (proxyOptions example_collaborators example_verify_request example_url) \<in>
     set (snd (verifyProviderRaw example_collaborators example_verifier example_verify_request)) \<and>
   TargetAddress (proxyOptions example_collaborators example_verify_request example_url) =
     ''localhost:8080'' \<and>
   Verify_called (defaultProviderStatesSetupURL
                    (addMessageTransport example_verify_request 8082) 8082) \<in>
     set (snd (verifyProviderRaw example_collaborators example_verifier example_verify_request)) \<and>
   ProviderBaseURL (defaultProviderStatesSetupURL
                    (addMessageTransport example_verify_request 8082) 8082) =
     ''http://localhost:8080'' \<and>
   ProviderBaseURL dummy_verify_request = [] \<and>
   utils_GetFreePort example_collaborators = Inr 8081 \<and>
   hd (snd (verifyProviderRaw example_collaborators example_verifier dummy_verify_request)) =
     ListenAndServe ''localhost:8081'' \<and>
   HTTPReverseProxy_called (proxyOptions example_collaborators dummy_effective_request dummy_url) \<in>
     set (snd (verifyProviderRaw example_collaborators example_verifier dummy_verify_request)) \<and>
   TargetAddress (proxyOptions example_collaborators dummy_effective_request dummy_url) =
     ''localhost:8081'' \<and>
   Verify_called (defaultProviderStatesSetupURL
                    (addMessageTransport dummy_effective_request 8082) 8082) \<in>
     set (snd (verifyProviderRaw example_collaborators example_verifier dummy_verify_request)) \<and>
   ProviderBaseURL (defaultProviderStatesSetupURL
                    (addMessageTransport dummy_effective_request 8082) 8082) =
     ''http://localhost:8081''"
proof -
  note given = provider_target [of example_verify_request example_collaborators example_verifier]
  note dummy = provider_target [of dummy_verify_request example_collaborators example_verifier]
  have a: "ProviderBaseURL example_verify_request \<noteq> []"
    and a': "ProviderBaseURL example_verify_request = ''http://localhost:8080''"
    by (simp_all add: example_verify_request_def)
  have z: "ProviderBaseURL dummy_verify_request = []"
    by (simp add: dummy_verify_request_def)
  have g: "utils_GetFreePort example_collaborators = Inr 8081"
    by (simp add: example_collaborators_def)
  have h: "Hostname example_verifier = []"
    by (simp add: example_verifier_def)
  have r: "dummy_verify_request\<lparr>ProviderBaseURL := ''http://localhost:8081''\<rparr> =
           dummy_effective_request"
    by (simp add: dummy_verify_request_def dummy_effective_request_def)
  have v: "request_validate example_collaborators rq = None" for rq
    by (simp add: example_collaborators_def)
  have p: "url_Parse example_collaborators (ProviderBaseURL example_verify_request) = Inr example_url"
    by (rule example_steps(3))
  have p': "url_Parse example_collaborators ''http://localhost:8081'' = Inr dummy_url"
    by (simp add: example_collaborators_def dummy_url_def)
  have w: "fst (waitForProxy example_collaborators (snd (validateConfig example_verifier)) 8082) = None"
    by (simp add: example_wait)
  from given a
  have 1: "ListenAndServe ''localhost:8081'' \<notin>
     set (snd (verifyProviderRaw example_collaborators example_verifier example_verify_request))"
    by blast
  from given a v p w
  have 2: "HTTPReverseProxy_called (proxyOptions example_collaborators example_verify_request example_url) \<in>
     set (snd (verifyProviderRaw example_collaborators example_verifier example_verify_request)) \<and>
   Verify_called (defaultProviderStatesSetupURL
                    (addMessageTransport example_verify_request 8082) 8082) \<in>
     set (snd (verifyProviderRaw example_collaborators example_verifier example_verify_request)) \<and>
   ProviderBaseURL (defaultProviderStatesSetupURL
                    (addMessageTransport example_verify_request 8082) 8082) =
     ''http://localhost:8080''"
    by (simp add: Let_def example_steps(4) a')
  have 3: "TargetAddress (proxyOptions example_collaborators example_verify_request example_url) =
     ''localhost:8080''"
    by (simp add: proxyOptions_def example_url_def)
  from dummy z g h
  have 4: "hd (snd (verifyProviderRaw example_collaborators example_verifier dummy_verify_request)) =
     ListenAndServe ''localhost:8081''"
    by (auto simp: Sprintf_d_examples)
  from dummy z g v p' w
  have 5: "HTTPReverseProxy_called (proxyOptions example_collaborators dummy_effective_request dummy_url) \<in>
     set (snd (verifyProviderRaw example_collaborators example_verifier dummy_verify_request)) \<and>
   Verify_called (defaultProviderStatesSetupURL
                    (addMessageTransport dummy_effective_request 8082) 8082) \<in>
     set (snd (verifyProviderRaw example_collaborators example_verifier dummy_verify_request)) \<and>
   ProviderBaseURL (defaultProviderStatesSetupURL
                    (addMessageTransport dummy_effective_request 8082) 8082) =
     ''http://localhost:8081''"
    by (simp add: Let_def example_steps(4) Sprintf_d_examples r)
  have 6: "TargetAddress (proxyOptions example_collaborators dummy_effective_request dummy_url) =
     ''localhost:8081''"
    by (simp add: proxyOptions_def dummy_url_def)
  from a z g 1 2 3 4 5 6 show ?thesis
    by simp
qed

text \<open>
  C7: a run whose proxy port is never reachable. The port waiter ends with the timeout error,
  but \<^verbatim>\<open>verifyProviderRaw\<close> does not return it: \<^verbatim>\<open>log.Fatal\<close> ends the process with status 1
  before \<^verbatim>\<open>return portErr\<close>. The engine is not called: the effects are the start of the proxy and
  the 200 dials.
\<close>

theorem port_timeout_exits:
  "fst (waitForProxy unreachable_collaborators (snd (validateConfig example_verifier)) 8082) =
     Some (ServerStartTimeout (10 * Second)
        ''Timed out waiting for http verification proxy on port 8082 - check for errors'') \<and>
   verifyProviderRaw unreachable_collaborators example_verifier example_verify_request =
     (Exit 1,
      HTTPReverseProxy_called
        (proxyOptions unreachable_collaborators example_verify_request example_url) #
      replicate 200 (Dial_called ''tcp'' ''localhost:8082''))"
proof -
  have w: "fst (waitForProxy unreachable_collaborators (snd (validateConfig example_verifier))
             (fst (proxy_HTTPReverseProxy unreachable_collaborators
                (proxyOptions unreachable_collaborators example_verify_request example_url)))) \<noteq> None"
    by (simp add: unreachable_steps(4) unreachable_wait)
  show ?thesis
    by (simp add: run_timeout [OF unreachable_steps(1-3) w] unreachable_steps(4) unreachable_wait)
qed


end
